theory Spec2Isabelle
  imports Complex_Main
begin

section \<open>Storyboard-to-video pipeline: data model\<close>

text \<open>
  The model follows \<^verbatim>\<open>components/VideoProducer.tsx\<close> (the orchestrator: the three
  handlers of the \<^verbatim>\<open>VideoProducer\<close> component) and the video service module
  (\<^verbatim>\<open>services/videoGeminiService\<close>: decomposition, recommendation, frame
  synthesis, prompt templates, the Veo polling loop).

  Conventions.
  \<^item> A TypeScript \<^verbatim>\<open>number\<close> that only ever holds an integer is an \<^typ>\<open>int\<close>; the
    duration reported by the decomposition service is a \<^typ>\<open>rat\<close> (a finite JSON
    number), which \<^verbatim>\<open>Math.round\<close> turns into an integer.
  \<^item> An optional field (\<^verbatim>\<open>startFrame?: string\<close>) is an \<^typ>\<open>'a option\<close>.
  \<^item> A thrown value is a \<^verbatim>\<open>js_throwable\<close>; an awaited call either throws, returns,
    or never settles: the three cases of \<^verbatim>\<open>outcome\<close>.
  \<^item> The external generation services are parameters (the record \<^verbatim>\<open>services\<close>):
    what they answer is not decided by this repository.
\<close>

datatype VideoModelId = seedance | hailuo | veo | kling

text \<open>\<^verbatim>\<open>'idle' | 'pending' | 'done' | 'error'\<close>.\<close>

datatype VideoGenerationStatus = Idle | Pending | Done | Error

datatype FrameType = StartFrame | EndFrame

text \<open>A value thrown in JavaScript: an \<^verbatim>\<open>Error\<close> instance with its message, or anything else.\<close>

datatype js_throwable = JsError string | NonError

datatype 'a outcome = Unfinished | Threw js_throwable | Returned 'a

text \<open>
  \<^verbatim>\<open>VideoScene\<close>, with the fields the component reads and writes. The field \<^verbatim>\<open>id\<close> is
  \<^verbatim>\<open>scene_id\<close> here (\<^term>\<open>id\<close> is the identity function).
\<close>

record VideoScene =
  scene_id :: string
  description :: string
  duration :: int
  sourcePageIndex :: int
  charactersInScene :: "string list"
  recommendedModel :: "VideoModelId option"
  reasoning :: "string option"
  isLoading :: bool
  videoGenerationStatus :: VideoGenerationStatus
  startFrame :: "string option"
  endFrame :: "string option"
  prompts :: "(VideoModelId \<times> string) list option"
  videoGenerationProgress :: "string option"
  generatedVideoUrl :: "string option"

record Character =
  name :: string
  description :: "string option"

text \<open>
  \<^verbatim>\<open>Omit<InitialSceneData, 'recommendedModel' | 'reasoning'>\<close> is the record \<^verbatim>\<open>Panel\<close>,
  \<^verbatim>\<open>InitialSceneData\<close> its extension. The type parameter is the type of \<^verbatim>\<open>duration\<close>:
  \<^typ>\<open>rat\<close> as the service reports it, \<^typ>\<open>int\<close> after ingestion.
\<close>

record 'n Panel =
  sceneDescription :: string
  narrative :: string
  duration :: 'n
  charactersInScene :: "string list"
  sourcePageIndex :: int

record 'n InitialSceneData = "'n Panel" +
  recommendedModel :: VideoModelId
  reasoning :: string

record Image =
  data :: string
  mimeType :: string

section \<open>JavaScript strings and numbers\<close>

definition digit_char :: "nat \<Rightarrow> char" where
  "digit_char d = ''0123456789'' ! d"

text \<open>
  \<^verbatim>\<open>n.toString()\<close> and \<^verbatim>\<open>`${n}`\<close> for an integer: plain decimal digits. (JavaScript
  switches to exponent notation from \<open>10\<^sup>2\<^sup>1\<close> on; indices, timestamps and clamped
  durations of realistic runs are far below.)
\<close>

fun show_nat :: "nat \<Rightarrow> string" where
  "show_nat n = (if n < 10 then [digit_char n] else show_nat (n div 10) @ [digit_char (n mod 10)])"

declare show_nat.simps [simp del]

definition show_int :: "int \<Rightarrow> string" where
  "show_int i = (if i < 0 then ''-'' @ show_nat (nat (- i)) else show_nat (nat i))"

text \<open>\<^verbatim>\<open>xs.join(sep)\<close>.\<close>

fun join :: "string \<Rightarrow> string list \<Rightarrow> string" where
  "join sep [] = []"
| "join sep [x] = x"
| "join sep (x # y # ys) = x @ sep @ join sep (y # ys)"

text \<open>A template literal, written as its source lines: each line ends with a line feed.\<close>

definition template :: "string list \<Rightarrow> string" where
  "template ls = concat (map (\<lambda>l. l @ ''\<newline>'') ls)"

text \<open>\<^verbatim>\<open>s || dflt\<close> on an optional string: \<^verbatim>\<open>undefined\<close> and the empty string are falsy.\<close>

definition truthy :: "string option \<Rightarrow> bool" where
  "truthy s = (case s of None \<Rightarrow> False | Some t \<Rightarrow> t \<noteq> [])"

definition or_else :: "string option \<Rightarrow> string \<Rightarrow> string" where
  "or_else s dflt = (case s of None \<Rightarrow> dflt | Some t \<Rightarrow> if t = [] then dflt else t)"

section \<open>Prompt composition (\<^verbatim>\<open>generateAllModelPrompts\<close>)\<close>

definition getCharacterAnchors :: "int InitialSceneData \<Rightarrow> Character list \<Rightarrow> string" where
  "getCharacterAnchors scene allCharacters =
     join ''\<newline>''
       (map (\<lambda>charName.
               ''- character: '' @ charName @ '', '' @
               or_else (case find (\<lambda>c. name c = charName) allCharacters of
                          None \<Rightarrow> None | Some charData \<Rightarrow> Character.description charData)
                       ''No description'')
            (charactersInScene scene))"

definition generateSeedancePrompt :: "int InitialSceneData \<Rightarrow> Character list \<Rightarrow> string" where
  "generateSeedancePrompt scene allCharacters =
     (let charAnchors = getCharacterAnchors scene allCharacters in
      template
       [''Title: Scene '' @ show_int (sourcePageIndex scene + 1),
        ''Duration: '' @ show_int (duration scene) @
          ''s  Aspect: 16:9  Style: cinematic, modern webtoon/anime style'',
        ''Consistency anchors:'',
        charAnchors,
        ''- mood: [auto-detect from scene]'',
        '''',
        ''Shot 1 (0-'' @ show_int (duration scene) @ ''s):'',
        ''- action: '' @ sceneDescription scene @ ''. '' @ narrative scene @ ''.'',
        ''- camera: [auto-detect from scene, cinematic]'',
        ''- include anchors: all characters in scene'',
        '''',
        ''Negative:'',
        ''- avoid: text artifacts, logos, watermarks, bad anatomy''])"

definition generateHailuoPrompt :: "int InitialSceneData \<Rightarrow> Character list \<Rightarrow> string" where
  "generateHailuoPrompt scene allCharacters =
     template
       [''Task: Animate a short clip from a webtoon panel: '' @ sceneDescription scene,
        ''Length: '' @ show_int (duration scene) @ ''s  Aspect: 16:9'',
        ''Action physics:'',
        ''- body mechanics: '' @ narrative scene @ '', with realistic weight and momentum.'',
        ''- speed profile: natural acceleration and deceleration.'',
        ''- environment forces: subtle ambient motion.'',
        '''',
        ''Camera:'',
        ''- rig: cinematic, dynamic camera that enhances the action.'',
        ''- lens: 35mm'',
        ''- move: subtle dolly or pan to follow action.'',
        '''',
        ''Look:'',
        ''- style: vibrant, modern webtoon/anime, high contrast.'',
        ''- lighting: cinematic lighting, rim lights, detailed shadows.'',
        '''',
        ''Negative:'',
        ''- avoid: limb bending artifacts, background wobble, static comic look'']"

definition generateVeoPrompt :: "int InitialSceneData \<Rightarrow> Character list \<Rightarrow> string" where
  "generateVeoPrompt scene allCharacters =
     template
       [''Title: Webtoon Scene '' @ show_int (sourcePageIndex scene + 1),
        ''Duration: '' @ show_int (duration scene) @
          ''s  Aspect: 16:9  Style: High-quality anime scene, cinematic, detailed background.'',
        ''Visual:'',
        ''- Shot 1 (0-'' @ show_int (duration scene) @ ''s): '' @ sceneDescription scene @
          ''. Action to perform: '' @ narrative scene @ ''.'',
        '''',
        ''Audio:'',
        ''- sfx: [appropriate ambient sounds for the scene]'',
        ''- music: [instrumental music matching the mood]'',
        '''',
        ''Negative:'',
        ''- avoid: text, speech bubbles, panel borders, photorealism.'']"

definition generateKlingPrompt :: "int InitialSceneData \<Rightarrow> Character list \<Rightarrow> string" where
  "generateKlingPrompt scene allCharacters =
     (let charLocks = join '', '' (charactersInScene scene) in
      template
       [''Mode: High  Length: '' @ show_int (duration scene) @
          ''s  Aspect: 16:9  Style: anime, cinematic'',
        ''Reference images:'',
        ''- subject: [The provided webtoon panel is the primary style and character reference]'',
        ''Lock:'',
        ''- keep: ['' @ charLocks @ '' hairstyle, color, outfit, face]'',
        ''- do not change: character designs from reference.'',
        '''',
        ''Shot plan:'',
        ''- Shot 1 (0-'' @ show_int (duration scene) @ ''s): '' @ sceneDescription scene @
          ''. During the shot, '' @ narrative scene @ ''.'',
        '''',
        ''Camera & Look:'',
        ''- lens [35mm], movement [subtle, cinematic], lighting [dramatic, source-aware]'',
        '''',
        ''Negative:'',
        ''- avoid: ref drift, extra accessories, background text''])"

text \<open>
  The \<^verbatim>\<open>Record<VideoModelId, string>\<close> is an association list in the key order of the
  object literal; \<^verbatim>\<open>prompts.veo\<close> is \<^term>\<open>map_of ps veo\<close>.
\<close>

definition generateAllModelPrompts ::
  "int InitialSceneData \<Rightarrow> Character list \<Rightarrow> (VideoModelId \<times> string) list" where
  "generateAllModelPrompts scene characters =
     [(seedance, generateSeedancePrompt scene characters),
      (hailuo, generateHailuoPrompt scene characters),
      (veo, generateVeoPrompt scene characters),
      (kling, generateKlingPrompt scene characters)]"

section \<open>The external services\<close>

text \<open>One part of a \<^verbatim>\<open>generateContent\<close> response (\<^verbatim>\<open>candidates[0].content.parts\<close>).\<close>

record Part =
  inlineData :: "Image option"
  partText :: "string option"

text \<open>
  The long-running operation of the video service: \<^verbatim>\<open>operation.done\<close>,
  \<^verbatim>\<open>operation.error?.message\<close> and
  \<^verbatim>\<open>operation.response?.generatedVideos?.[0]?.video?.uri\<close>.
\<close>

record Operation =
  opDone :: bool
  opError :: "string option"
  videoUri :: "string option"

text \<open>\<^verbatim>\<open>VeoRequestPayload\<close>; \<^verbatim>\<open>image\<close> is the pair of \<^verbatim>\<open>imageBytes\<close> (undefined when the
  data URL has no comma) and \<^verbatim>\<open>mimeType\<close>.\<close>

record VeoRequestPayload =
  model :: string
  prompt :: string
  image :: "(string option \<times> string) option"
  numberOfVideos :: nat

text \<open>What \<^verbatim>\<open>fetch\<close> answers: \<^verbatim>\<open>response.ok\<close>, \<^verbatim>\<open>response.statusText\<close>, and the
  object URL that \<^verbatim>\<open>URL.createObjectURL\<close> makes of the downloaded blob.\<close>

record DownloadResponse =
  ok :: bool
  statusText :: string
  objectUrl :: string

text \<open>
  The answers of the outside world. A call that rejects answers \<^term>\<open>Inl e\<close>. The calls
  made inside a loop over panels carry the panel's index, so that the same arguments may be
  answered differently. \<^verbatim>\<open>recommendReply\<close> and \<^verbatim>\<open>decomposeReply\<close> answer
  \<^term>\<open>Inr None\<close> when \<^verbatim>\<open>JSON.parse(response.text.trim())\<close> throws.
  \<^verbatim>\<open>pollReplies\<close> are the answers of the successive \<^verbatim>\<open>getVideosOperation\<close> calls; when
  they are used up the job has not settled. \<^verbatim>\<open>now k\<close> is the \<open>k\<close>-th reading of
  \<^verbatim>\<open>Date.now()\<close> during a build.
\<close>

record services =
  decomposeReply :: "Image list \<Rightarrow> Character list \<Rightarrow> js_throwable + rat Panel list option"
  recommendReply :: "nat \<Rightarrow> string \<Rightarrow> string \<Rightarrow> js_throwable + (VideoModelId \<times> string) option"
  startFrameReply :: "nat \<Rightarrow> string \<Rightarrow> Image \<Rightarrow> js_throwable + Part list"
  endFrameReply :: "nat \<Rightarrow> string \<Rightarrow> string \<Rightarrow> int \<Rightarrow> js_throwable + Part list"
  regenerateReply :: "string \<Rightarrow> string \<Rightarrow> string \<Rightarrow> js_throwable + Part list"
  submitReply :: "VeoRequestPayload \<Rightarrow> js_throwable + Operation"
  pollReplies :: "(js_throwable + Operation) list"
  downloadReply :: "string \<Rightarrow> js_throwable + DownloadResponse"
  now :: "nat \<Rightarrow> nat"
  apiKey :: string

section \<open>The video service module\<close>

text \<open>\<^verbatim>\<open>error instanceof Error ? error.message : dflt\<close>.\<close>

definition message_or :: "js_throwable \<Rightarrow> string \<Rightarrow> string" where
  "message_or e dflt = (case e of JsError m \<Rightarrow> m | NonError \<Rightarrow> dflt)"

text \<open>
  The tail shared by the three frame functions: the first part with \<^verbatim>\<open>inlineData\<close> as a
  data URL, else an error quoting the first part with text, else the function's own error.
\<close>

definition imageOfParts :: "string \<Rightarrow> string \<Rightarrow> Part list \<Rightarrow> js_throwable + string" where
  "imageOfParts textMessage noImageMessage parts =
     (case find (\<lambda>p. inlineData p \<noteq> None) parts of
        Some imagePart \<Rightarrow>
          (case inlineData imagePart of
             Some img \<Rightarrow> Inr (''data:'' @ mimeType img @ '';base64,'' @ data img)
           | None \<Rightarrow> Inl (JsError noImageMessage))
      | None \<Rightarrow>
          (case find (\<lambda>p. truthy (partText p)) parts of
             Some textPart \<Rightarrow>
               Inl (JsError (textMessage @ or_else (partText textPart) [] @ [CHR 0x22]))
           | None \<Rightarrow> Inl (JsError noImageMessage)))"

text \<open>
  \<^verbatim>\<open>generateVideoFrame(prompt, referenceImage)\<close>. The orchestrator passes
  \<^verbatim>\<open>pagesToImport[panel.sourcePageIndex]\<close>, which is \<^verbatim>\<open>undefined\<close> out of range: then
  \<^verbatim>\<open>referenceImage.data\<close> throws a \<^verbatim>\<open>TypeError\<close> before any request is made.
\<close>

definition undefinedReadMessage :: string where
  "undefinedReadMessage = ''Cannot read properties of undefined (reading 'data')''"

definition generateVideoFrame ::
  "services \<Rightarrow> nat \<Rightarrow> string \<Rightarrow> Image option \<Rightarrow> js_throwable + string" where
  "generateVideoFrame svc i promptText referenceImage =
     (case referenceImage of
        None \<Rightarrow> Inl (JsError undefinedReadMessage)
      | Some img \<Rightarrow>
          (case startFrameReply svc i promptText img of
             Inl e \<Rightarrow> Inl e
           | Inr parts \<Rightarrow>
               imageOfParts (''AI did not return an image. Response: '' @ [CHR 0x22])
                 ''AI did not return an image for the video frame.'' parts))"

definition generateWebtoonEndFrame ::
  "services \<Rightarrow> nat \<Rightarrow> string \<Rightarrow> string \<Rightarrow> int \<Rightarrow> js_throwable + string" where
  "generateWebtoonEndFrame svc i startFrameBase64 narr dur =
     (case endFrameReply svc i startFrameBase64 narr dur of
        Inl e \<Rightarrow> Inl e
      | Inr parts \<Rightarrow>
          imageOfParts (''AI did not return an image. Response: '' @ [CHR 0x22])
            ''AI did not return an end frame for the webtoon scene.'' parts)"

definition regenerateVideoFrame ::
  "services \<Rightarrow> string \<Rightarrow> string \<Rightarrow> string \<Rightarrow> js_throwable + string" where
  "regenerateVideoFrame svc originalFrameBase64 editPrompt originalSceneDescription =
     (case regenerateReply svc originalFrameBase64 editPrompt originalSceneDescription of
        Inl e \<Rightarrow> Inl e
      | Inr parts \<Rightarrow>
          imageOfParts (''AI did not return an image for regeneration. Response: '' @ [CHR 0x22])
            ''AI did not return a regenerated image.'' parts)"

text \<open>
  \<^verbatim>\<open>recommendVideoModel\<close>: the request is awaited outside the \<^verbatim>\<open>try\<close>, so its
  rejection propagates; only a response that does not parse falls back to the default.
\<close>

definition recommendVideoModel ::
  "services \<Rightarrow> nat \<Rightarrow> string \<Rightarrow> string \<Rightarrow> js_throwable + (VideoModelId \<times> string)" where
  "recommendVideoModel svc k desc narr =
     (case recommendReply svc k desc narr of
        Inl e \<Rightarrow> Inl e
      | Inr None \<Rightarrow> Inr (seedance, ''Default recommendation due to an error.'')
      | Inr (Some result) \<Rightarrow> Inr result)"

text \<open>\<^verbatim>\<open>Math.min(Math.round(d), 10)\<close>; \<^verbatim>\<open>Math.round\<close> rounds halves towards \<open>+\<infinity>\<close>,
  as \<^term>\<open>round\<close> does.\<close>

definition clampDuration :: "rat \<Rightarrow> int" where
  "clampDuration d = min (round d) 10"

definition enrichPanel :: "rat Panel \<Rightarrow> VideoModelId \<Rightarrow> string \<Rightarrow> int InitialSceneData" where
  "enrichPanel panel m r =
     \<lparr>sceneDescription = sceneDescription panel,
      narrative = narrative panel,
      duration = clampDuration (duration panel),
      charactersInScene = charactersInScene panel,
      sourcePageIndex = sourcePageIndex panel,
      recommendedModel = m,
      reasoning = r\<rparr>"

text \<open>\<^verbatim>\<open>Promise.all(panels.map(async panel => ...))\<close>: rejects as soon as one
  recommendation rejects.\<close>

fun enrichedPanels ::
  "services \<Rightarrow> nat \<Rightarrow> rat Panel list \<Rightarrow> js_throwable + int InitialSceneData list" where
  "enrichedPanels svc k [] = Inr []"
| "enrichedPanels svc k (panel # rest) =
     (case recommendVideoModel svc k (sceneDescription panel) (narrative panel) of
        Inl e \<Rightarrow> Inl e
      | Inr (m, r) \<Rightarrow>
          (case enrichedPanels svc (Suc k) rest of
             Inl e \<Rightarrow> Inl e
           | Inr ps \<Rightarrow> Inr (enrichPanel panel m r # ps)))"

definition storyboardFailure :: js_throwable where
  "storyboardFailure = JsError ''Failed to get a valid storyboard from AI.''"

definition generateStoryboardFromPages ::
  "services \<Rightarrow> Image list \<Rightarrow> Character list \<Rightarrow> js_throwable + int InitialSceneData list" where
  "generateStoryboardFromPages svc pageImages characters =
     (case decomposeReply svc pageImages characters of
        Inl e \<Rightarrow> Inl e
      | Inr None \<Rightarrow> Inl storyboardFailure
      | Inr (Some panels) \<Rightarrow>
          (case enrichedPanels svc 0 panels of
             Inl e \<Rightarrow> Inl storyboardFailure
           | Inr ps \<Rightarrow> Inr ps))"

subsection \<open>\<^verbatim>\<open>generateVeoVideo\<close>: submission and the polling loop\<close>

definition progressMessages :: "string list" where
  "progressMessages =
     [''Casting characters...'',
      ''Setting up the scene...'',
      ''Director is shouting 'Action!'...'',
      ''Rendering photons...'',
      ''Compositing layers...'',
      ''Adding final touches...'']"

text \<open>\<^verbatim>\<open>s.split(',')[1]\<close>: the text between the first and the second comma, if any.\<close>

definition splitSecond :: "string \<Rightarrow> string option" where
  "splitSecond s =
     (let rest = dropWhile (\<lambda>c. c \<noteq> CHR '','') s
      in if rest = [] then None else Some (takeWhile (\<lambda>c. c \<noteq> CHR '','') (tl rest)))"

text \<open>
  The loop \<^verbatim>\<open>while (!operation.done) { onProgressUpdate(...); sleep; poll; pollCount++ }\<close>.
  The state \<open>'s\<close> is whatever the progress callback updates. The loop has no exit of its
  own: when the recorded answers are used up before the operation is done, the result is
  \<^term>\<open>Unfinished\<close>.
\<close>

fun pollLoop ::
  "(string \<Rightarrow> 's \<Rightarrow> 's) \<Rightarrow> (js_throwable + Operation) list \<Rightarrow> nat \<Rightarrow> Operation \<Rightarrow> 's
     \<Rightarrow> 's \<times> Operation outcome" where
  "pollLoop onProgressUpdate [] pollCount operation s =
     (if opDone operation then (s, Returned operation)
      else (onProgressUpdate (progressMessages ! (pollCount mod length progressMessages)) s,
            Unfinished))"
| "pollLoop onProgressUpdate (reply # replies) pollCount operation s =
     (if opDone operation then (s, Returned operation)
      else
        (let s' = onProgressUpdate (progressMessages ! (pollCount mod length progressMessages)) s
         in case reply of
              Inl e \<Rightarrow> (s', Threw e)
            | Inr operation' \<Rightarrow> pollLoop onProgressUpdate replies (Suc pollCount) operation' s'))"

text \<open>
  The part of \<^verbatim>\<open>generateVeoVideo\<close> after the loop: the job's own error, the download link,
  the download.
\<close>

definition retrieveVideo ::
  "services \<Rightarrow> (string \<Rightarrow> 's \<Rightarrow> 's) \<Rightarrow> Operation \<Rightarrow> 's \<Rightarrow> 's \<times> string outcome" where
  "retrieveVideo svc onProgressUpdate operation s =
     (case opError operation of
        Some m \<Rightarrow> (s, Threw (JsError (''Video generation failed: '' @ m)))
      | None \<Rightarrow>
          (let s' = onProgressUpdate ''Fetching video...'' s
           in if \<not> truthy (videoUri operation)
              then (s', Threw (JsError
                          ''Video generation completed, but no download link was provided.''))
              else
                (case downloadReply svc (or_else (videoUri operation) [] @ ''&key='' @ apiKey svc) of
                   Inl e \<Rightarrow> (s', Threw e)
                 | Inr response \<Rightarrow>
                     if \<not> ok response
                     then (s', Threw (JsError (''Failed to download video: '' @ statusText response)))
                     else (s', Returned (objectUrl response)))))"

text \<open>The request built at the start of \<^verbatim>\<open>generateVeoVideo\<close>.\<close>

definition requestPayloadOf :: "string \<Rightarrow> Image option \<Rightarrow> VeoRequestPayload" where
  "requestPayloadOf promptText startFrameData =
     \<lparr>model = ''veo-2.0-generate-001'',
      prompt = promptText,
      image = (case startFrameData of
                 None \<Rightarrow> None
               | Some f \<Rightarrow> if data f = [] then None
                           else Some (splitSecond (data f), mimeType f)),
      numberOfVideos = 1\<rparr>"

text \<open>
  The result carries, besides the state, the requests sent to \<^verbatim>\<open>generateVideos\<close> by this
  call. The usage record returned next to the URL is left out.
\<close>

definition generateVeoVideo ::
  "services \<Rightarrow> string \<Rightarrow> (string \<Rightarrow> 's \<Rightarrow> 's) \<Rightarrow> Image option \<Rightarrow> int \<Rightarrow> 's
     \<Rightarrow> 's \<times> VeoRequestPayload list \<times> string outcome" where
  "generateVeoVideo svc promptText onProgressUpdate startFrameData dur s =
     (let s1 = onProgressUpdate ''Starting video generation...'' s;
          requestPayload = requestPayloadOf promptText startFrameData
      in case submitReply svc requestPayload of
           Inl e \<Rightarrow> (s1, [requestPayload], Threw e)
         | Inr operation0 \<Rightarrow>
             (case pollLoop onProgressUpdate (pollReplies svc) 0 operation0 s1 of
                (s2, Unfinished) \<Rightarrow> (s2, [requestPayload], Unfinished)
              | (s2, Threw e) \<Rightarrow> (s2, [requestPayload], Threw e)
              | (s2, Returned operation) \<Rightarrow>
                  (case retrieveVideo svc onProgressUpdate operation s2 of
                     (s3, r) \<Rightarrow> (s3, [requestPayload], r))))"

section \<open>The orchestrator (\<^verbatim>\<open>VideoProducer\<close>)\<close>

text \<open>
  The component's state: the \<^verbatim>\<open>useState\<close> cells its handlers write, and the messages
  shown with \<^verbatim>\<open>alert\<close>, in order. \<^verbatim>\<open>addUsageRecord\<close> writes to another component's
  state and cannot throw; it is left out, as is \<^verbatim>\<open>console.error\<close>.
\<close>

record ProducerState =
  showImportModal :: bool
  isGenerating :: bool
  scenes :: "VideoScene list"
  selectedSceneId :: "string option"
  importedPages :: "Image list"
  selectedModels :: "VideoModelId \<Rightarrow> bool"
  regenState :: "(string \<times> FrameType) option"
  regeneratingFrame :: "(string \<times> FrameType) option"
  alerts :: "string list"

text \<open>The functional update \<^verbatim>\<open>prev.map(s => s.id === k ? f(s) : s)\<close> that every handler uses.\<close>

definition patchScene :: "string \<Rightarrow> (VideoScene \<Rightarrow> VideoScene) \<Rightarrow> VideoScene list \<Rightarrow> VideoScene list" where
  "patchScene k f prev = map (\<lambda>s. if scene_id s = k then f s else s) prev"

subsection \<open>\<^verbatim>\<open>handleGenerateStoryboard\<close>\<close>

text \<open>
  \<^verbatim>\<open>initialSceneData.map((panel, i) => ({ id: Date.now().toString() + i, ... }))\<close>: the
  clock is read once for every panel.
\<close>

definition placeholderScene :: "services \<Rightarrow> nat \<Rightarrow> int InitialSceneData \<Rightarrow> VideoScene" where
  "placeholderScene svc i panel =
     \<lparr>scene_id = show_nat (now svc i) @ show_nat i,
      description = sceneDescription panel,
      duration = duration panel,
      sourcePageIndex = sourcePageIndex panel,
      charactersInScene = charactersInScene panel,
      recommendedModel = Some (recommendedModel panel),
      reasoning = Some (reasoning panel),
      isLoading = True,
      videoGenerationStatus = Idle,
      startFrame = None,
      endFrame = None,
      prompts = None,
      videoGenerationProgress = None,
      generatedVideoUrl = None\<rparr>"

definition placeholderScenes :: "services \<Rightarrow> int InitialSceneData list \<Rightarrow> VideoScene list" where
  "placeholderScenes svc initialSceneData =
     map (\<lambda>(i, panel). placeholderScene svc i panel) (enumerate 0 initialSceneData)"

text \<open>\<^verbatim>\<open>pagesToImport[panel.sourcePageIndex]\<close>.\<close>

definition pageAt :: "Image list \<Rightarrow> int \<Rightarrow> Image option" where
  "pageAt pagesToImport k =
     (if 0 \<le> k \<and> k < int (length pagesToImport) then Some (pagesToImport ! nat k) else None)"

text \<open>
  One iteration of the loop up to its \<^verbatim>\<open>setScenes\<close>: start frame and prompts
  (\<^verbatim>\<open>Promise.all\<close>), then the end frame. Any rejection leaves the loop.
\<close>

definition frameStage ::
  "services \<Rightarrow> Image list \<Rightarrow> Character list \<Rightarrow> nat \<Rightarrow> int InitialSceneData
     \<Rightarrow> js_throwable + (string \<times> (VideoModelId \<times> string) list \<times> string)" where
  "frameStage svc pagesToImport characters i panel =
     (let sourceImage = pageAt pagesToImport (sourcePageIndex panel)
      in case generateVideoFrame svc i (sceneDescription panel) sourceImage of
           Inl e \<Rightarrow> Inl e
         | Inr sf \<Rightarrow>
             (let allPrompts = generateAllModelPrompts panel characters
              in case generateWebtoonEndFrame svc i sf (narrative panel) (duration panel) of
                   Inl e \<Rightarrow> Inl e
                 | Inr ef \<Rightarrow> Inr (sf, allPrompts, ef)))"

definition completeScene :: "string \<Rightarrow> (VideoModelId \<times> string) list \<Rightarrow> string \<Rightarrow> VideoScene \<Rightarrow> VideoScene" where
  "completeScene sf allPrompts ef s =
     s\<lparr>startFrame := Some sf, endFrame := Some ef, prompts := Some allPrompts, isLoading := False\<rparr>"

text \<open>
  The \<^verbatim>\<open>for\<close> loop. It returns the states published by its \<^verbatim>\<open>setScenes\<close> calls, in
  order, and the thrown value if an iteration threw.
\<close>

fun frameLoop ::
  "services \<Rightarrow> Image list \<Rightarrow> Character list \<Rightarrow> nat \<Rightarrow> (int InitialSceneData \<times> VideoScene) list
     \<Rightarrow> ProducerState \<Rightarrow> ProducerState list \<times> js_throwable option" where
  "frameLoop svc pagesToImport characters i [] st = ([], None)"
| "frameLoop svc pagesToImport characters i ((panel, placeholder) # rest) st =
     (case frameStage svc pagesToImport characters i panel of
        Inl e \<Rightarrow> ([], Some e)
      | Inr (sf, allPrompts, ef) \<Rightarrow>
          (let st' = st\<lparr>scenes := patchScene (scene_id placeholder)
                                    (completeScene sf allPrompts ef) (scenes st)\<rparr>;
               (published, thrown) = frameLoop svc pagesToImport characters (Suc i) rest st'
           in (st' # published, thrown)))"

text \<open>The \<^verbatim>\<open>catch\<close> and \<^verbatim>\<open>finally\<close> blocks.\<close>

definition buildFailed :: "js_throwable \<Rightarrow> ProducerState \<Rightarrow> ProducerState" where
  "buildFailed e st =
     st\<lparr>alerts := alerts st @ [''Storyboard Generation Failed: '' @ message_or e ''Unknown Error''],
        scenes := [],
        isGenerating := False\<rparr>"

definition buildSucceeded :: "VideoScene list \<Rightarrow> ProducerState \<Rightarrow> ProducerState" where
  "buildSucceeded placeholders st =
     (case placeholders of
        [] \<Rightarrow> st\<lparr>isGenerating := False\<rparr>
      | p # _ \<Rightarrow> st\<lparr>selectedSceneId := Some (scene_id p), isGenerating := False\<rparr>)"

text \<open>The five state updates before the first \<^verbatim>\<open>await\<close>.\<close>

definition startBuild :: "Image list \<Rightarrow> ProducerState \<Rightarrow> ProducerState" where
  "startBuild pagesToImport st =
     st\<lparr>importedPages := pagesToImport, showImportModal := False,
        isGenerating := True, scenes := [], selectedSceneId := None\<rparr>"

text \<open>
  The handler returns the successive states it publishes (never an empty list); the last
  one is the state it leaves behind.
\<close>

definition handleGenerateStoryboard ::
  "services \<Rightarrow> Character list \<Rightarrow> Image list \<Rightarrow> ProducerState \<Rightarrow> ProducerState list" where
  "handleGenerateStoryboard svc characters pagesToImport st =
     (if pagesToImport = [] then [st]
      else
        (let st0 = startBuild pagesToImport st
         in case generateStoryboardFromPages svc pagesToImport characters of
              Inl e \<Rightarrow> [st0, buildFailed e st0]
            | Inr initialSceneData \<Rightarrow>
                (let placeholders = placeholderScenes svc initialSceneData;
                     st1 = st0\<lparr>scenes := placeholders\<rparr>;
                     (published, thrown) =
                        frameLoop svc pagesToImport characters 0
                          (zip initialSceneData placeholders) st1;
                     stl = last (st1 # published)
                 in st0 # st1 # published @
                      [case thrown of
                         Some e \<Rightarrow> buildFailed e stl
                       | None \<Rightarrow> buildSucceeded placeholders stl])))"

subsection \<open>\<^verbatim>\<open>handleRegenerateFrame\<close>\<close>

definition frameOf :: "FrameType \<Rightarrow> VideoScene \<Rightarrow> string option" where
  "frameOf frameType s = (case frameType of StartFrame \<Rightarrow> startFrame s | EndFrame \<Rightarrow> endFrame s)"

text \<open>\<^verbatim>\<open>{ ...s, [frameType === 'start' ? 'startFrame' : 'endFrame']: newFrame }\<close>.\<close>

definition setFrame :: "FrameType \<Rightarrow> string \<Rightarrow> VideoScene \<Rightarrow> VideoScene" where
  "setFrame frameType newFrame s =
     (case frameType of
        StartFrame \<Rightarrow> s\<lparr>startFrame := Some newFrame\<rparr>
      | EndFrame \<Rightarrow> s\<lparr>endFrame := Some newFrame\<rparr>)"

definition handleRegenerateFrame ::
  "services \<Rightarrow> string \<Rightarrow> FrameType \<Rightarrow> string \<Rightarrow> ProducerState \<Rightarrow> ProducerState" where
  "handleRegenerateFrame svc sceneId frameType editPrompt st =
     (case find (\<lambda>s. scene_id s = sceneId) (scenes st) of
        None \<Rightarrow> st
      | Some sceneToRegen \<Rightarrow>
          (case frameOf frameType sceneToRegen of
             None \<Rightarrow> st
           | Some originalFrame \<Rightarrow>
               if originalFrame = [] then st
               else
                 (let st1 = st\<lparr>regeneratingFrame := Some (sceneId, frameType), regenState := None\<rparr>
                  in case regenerateVideoFrame svc originalFrame editPrompt
                            (VideoScene.description sceneToRegen) of
                       Inr newFrame \<Rightarrow>
                         st1\<lparr>scenes := patchScene sceneId (setFrame frameType newFrame) (scenes st1),
                             regeneratingFrame := None\<rparr>
                     | Inl e \<Rightarrow>
                         st1\<lparr>alerts := alerts st1 @
                               [''Frame regeneration failed: '' @ message_or e ''Unknown Error''],
                             regeneratingFrame := None\<rparr>)))"

subsection \<open>\<^verbatim>\<open>handleCreateVeoVideo\<close>\<close>

definition lineTerminator :: "char \<Rightarrow> bool" where
  "lineTerminator c = (c = CHR 0x0A \<or> c = CHR 0x0D)"

text \<open>
  \<^verbatim>\<open>s.match(/data:(image\/.*?);/)?.[1]\<close>: at the first position where
  \<^verbatim>\<open>data:image/\<close> is followed, on the same line, by a semicolon, the text from
  \<^verbatim>\<open>image/\<close> up to that semicolon.
\<close>

fun matchMimeType :: "string \<Rightarrow> string option" where
  "matchMimeType [] = None"
| "matchMimeType (c # cs) =
     (let rest = drop 11 (c # cs);
          body = takeWhile (\<lambda>x. x \<noteq> CHR '';'' \<and> \<not> lineTerminator x) rest
      in if take 11 (c # cs) = ''data:image/'' \<and> take 1 (drop (length body) rest) = '';''
         then Some (''image/'' @ body)
         else matchMimeType cs)"

definition veoPromptOf :: "VideoScene \<Rightarrow> string option" where
  "veoPromptOf scene = (case prompts scene of None \<Rightarrow> None | Some ps \<Rightarrow> map_of ps veo)"

definition setPending :: "VideoScene \<Rightarrow> VideoScene" where
  "setPending s = s\<lparr>videoGenerationStatus := Pending, videoGenerationProgress := Some ''Initializing...''\<rparr>"

definition setProgress :: "string \<Rightarrow> VideoScene \<Rightarrow> VideoScene" where
  "setProgress progress s = s\<lparr>videoGenerationProgress := Some progress\<rparr>"

definition setDone :: "string \<Rightarrow> VideoScene \<Rightarrow> VideoScene" where
  "setDone videoUrl s = s\<lparr>videoGenerationStatus := Done, generatedVideoUrl := Some videoUrl\<rparr>"

definition setError :: "js_throwable \<Rightarrow> VideoScene \<Rightarrow> VideoScene" where
  "setError e s =
     s\<lparr>videoGenerationStatus := Error,
       videoGenerationProgress := Some (message_or e ''Unknown error'')\<rparr>"

text \<open>The callback handed to \<^verbatim>\<open>generateVeoVideo\<close>.\<close>

definition progressCallback :: "string \<Rightarrow> string \<Rightarrow> ProducerState \<Rightarrow> ProducerState" where
  "progressCallback k progress st = st\<lparr>scenes := patchScene k (setProgress progress) (scenes st)\<rparr>"

text \<open>\<^verbatim>\<open>{ data: scene.startFrame, mimeType: mimeType }\<close>.\<close>

definition startFrameDataOf :: "VideoScene \<Rightarrow> Image" where
  "startFrameDataOf scene =
     \<lparr>data = or_else (startFrame scene) [],
      mimeType = or_else (matchMimeType (or_else (startFrame scene) [])) ''image/png''\<rparr>"

text \<open>
  The handler's result: the state, the requests sent to the video service, and whether
  the handler returned, threw or is still waiting.
\<close>

definition handleCreateVeoVideo ::
  "services \<Rightarrow> VideoScene \<Rightarrow> ProducerState \<Rightarrow> ProducerState \<times> VeoRequestPayload list \<times> unit outcome" where
  "handleCreateVeoVideo svc scene st =
     (if \<not> truthy (veoPromptOf scene) \<or> \<not> truthy (startFrame scene) then (st, [], Returned ())
      else
        (let veoPrompt = or_else (veoPromptOf scene) [];
             st1 = st\<lparr>scenes := patchScene (scene_id scene) setPending (scenes st)\<rparr>;
             startFrameData = startFrameDataOf scene
         in case generateVeoVideo svc veoPrompt (progressCallback (scene_id scene))
                   (Some startFrameData) (VideoScene.duration scene) st1 of
              (st2, requests, Unfinished) \<Rightarrow> (st2, requests, Unfinished)
            | (st2, requests, Returned videoUrl) \<Rightarrow>
                (st2\<lparr>scenes := patchScene (scene_id scene) (setDone videoUrl) (scenes st2)\<rparr>,
                 requests, Returned ())
            | (st2, requests, Threw e) \<Rightarrow>
                (st2\<lparr>scenes := patchScene (scene_id scene) (setError e) (scenes st2)\<rparr>,
                 requests, Returned ())))"



section \<open>Observing a video run\<close>

text \<open>
  \<^verbatim>\<open>generateVeoVideo\<close> as \<^verbatim>\<open>handleCreateVeoVideo\<close> calls it for a scene, observed in two
  ways: with a callback that appends every progress message to a log, and by its outcome
  alone (the callback does nothing).
\<close>

definition veoProgressLog :: "services \<Rightarrow> VideoScene \<Rightarrow> string list" where
  "veoProgressLog svc scene =
     fst (generateVeoVideo svc (or_else (veoPromptOf scene) []) (\<lambda>progress log. log @ [progress])
            (Some (startFrameDataOf scene)) (VideoScene.duration scene) [])"

definition veoJobOutcome :: "services \<Rightarrow> VideoScene \<Rightarrow> string outcome" where
  "veoJobOutcome svc scene =
     snd (snd (generateVeoVideo svc (or_else (veoPromptOf scene) []) (\<lambda>progress u. u)
                 (Some (startFrameDataOf scene)) (VideoScene.duration scene) ()))"

text \<open>
  What a run leaves behind, as the statements below say it: the handler has returned and
  every scene with the run's identifier is in error with the message of the thrown value
  in the progress field, or is done with the given URL.
\<close>

definition leavesError ::
  "js_throwable \<Rightarrow> VideoScene \<Rightarrow> ProducerState \<times> VeoRequestPayload list \<times> unit outcome \<Rightarrow> bool" where
  "leavesError e scene result =
     (snd (snd result) = Returned ()
      \<and> (\<forall>s\<in>set (scenes (fst result)).
            scene_id s = scene_id scene \<longrightarrow>
              videoGenerationStatus s = Error
              \<and> videoGenerationProgress s = Some (message_or e ''Unknown error'')))"

definition leavesDone ::
  "string \<Rightarrow> VideoScene \<Rightarrow> ProducerState \<times> VeoRequestPayload list \<times> unit outcome \<Rightarrow> bool" where
  "leavesDone videoUrl scene result =
     (snd (snd result) = Returned ()
      \<and> (\<forall>s\<in>set (scenes (fst result)).
            scene_id s = scene_id scene \<longrightarrow>
              videoGenerationStatus s = Done \<and> generatedVideoUrl s = Some videoUrl))"

section \<open>Example inputs\<close>

text \<open>
  A roster of two characters, two pages, and a world in which every service answers: the
  decomposition reports two panels (durations \<open>12\<close> and \<open>3.5\<close> seconds), every frame
  request returns an image, and the video job is pending when submitted and done at the
  third poll. The examples below change one answer at a time.
\<close>

definition demoRoster :: "Character list" where
  "demoRoster =
     [\<lparr>name = ''Mina'', description = Some ''a tall archer in a green cloak''\<rparr>,
      \<lparr>name = ''Joon'', description = None\<rparr>]"

definition demoPages :: "Image list" where
  "demoPages =
     [\<lparr>data = ''data:image/png;base64,UEFHRTA='', mimeType = ''image/png''\<rparr>,
      \<lparr>data = ''data:image/jpeg;base64,UEFHRTE='', mimeType = ''image/jpeg''\<rparr>]"

definition rawPanel :: "string \<Rightarrow> rat \<Rightarrow> int \<Rightarrow> rat Panel" where
  "rawPanel d dur k =
     \<lparr>sceneDescription = d, narrative = ''She releases the arrow'', duration = dur,
      charactersInScene = [''Mina'', ''Joon''], sourcePageIndex = k\<rparr>"

definition demoRawPanels :: "rat Panel list" where
  "demoRawPanels = [rawPanel ''Mina draws her bow'' 12 0, rawPanel ''Joon ducks'' (7 / 2) 1]"

definition imageParts :: "string \<Rightarrow> Part list" where
  "imageParts d =
     [\<lparr>inlineData = None, partText = Some ''Here is the frame.''\<rparr>,
      \<lparr>inlineData = Some \<lparr>data = d, mimeType = ''image/png''\<rparr>, partText = None\<rparr>]"

definition pendingOperation :: Operation where
  "pendingOperation = \<lparr>opDone = False, opError = None, videoUri = None\<rparr>"

definition doneOperation :: "string \<Rightarrow> Operation" where
  "doneOperation u = \<lparr>opDone = True, opError = None, videoUri = Some u\<rparr>"

definition demoServices :: services where
  "demoServices =
     \<lparr>decomposeReply = (\<lambda>_ _. Inr (Some demoRawPanels)),
      recommendReply = (\<lambda>_ _ _. Inr (Some (veo, ''dialogue-heavy scene''))),
      startFrameReply = (\<lambda>i _ _. Inr (imageParts (''START'' @ show_nat i))),
      endFrameReply = (\<lambda>i _ _ _. Inr (imageParts (''END'' @ show_nat i))),
      regenerateReply = (\<lambda>_ _ _. Inr (imageParts ''REGEN'')),
      submitReply = (\<lambda>_. Inr pendingOperation),
      pollReplies = [Inr pendingOperation, Inr pendingOperation, Inr (doneOperation ''https://video.example/X?alt=media'')],
      downloadReply = (\<lambda>_. Inr \<lparr>ok = True, statusText = ''OK'', objectUrl = ''blob:video-X''\<rparr>),
      now = (\<lambda>_. 1730000000000),
      apiKey = ''KEY''\<rparr>"

definition initialState :: ProducerState where
  "initialState =
     \<lparr>showImportModal = True, isGenerating = False, scenes = [], selectedSceneId = None,
      importedPages = [], selectedModels = (\<lambda>_. True), regenState = None,
      regeneratingFrame = None, alerts = []\<rparr>"

definition demoInitialScenes :: "int InitialSceneData list" where
  "demoInitialScenes =
     [enrichPanel (rawPanel ''Mina draws her bow'' 12 0) veo ''dialogue-heavy scene'',
      enrichPanel (rawPanel ''Joon ducks'' (7 / 2) 1) veo ''dialogue-heavy scene'']"

definition demoPanel :: "VideoModelId \<Rightarrow> string \<Rightarrow> int InitialSceneData" where
  "demoPanel m r = enrichPanel (rawPanel ''Mina draws her bow'' 12 0) m r"

definition svcEndFrameFails :: services where
  "svcEndFrameFails =
     demoServices\<lparr>endFrameReply :=
       (\<lambda>i _ _ _. if i = 1 then Inl (JsError ''quota exceeded'') else Inr (imageParts ''END''))\<rparr>"

definition svcShortScene :: services where
  "svcShortScene =
     demoServices\<lparr>decomposeReply := (\<lambda>_ _. Inr (Some [rawPanel ''Mina blinks'' (2 / 5) 0]))\<rparr>"

definition svcBadPage :: services where
  "svcBadPage =
     demoServices\<lparr>decomposeReply := (\<lambda>_ _. Inr (Some [rawPanel ''Somewhere else'' 5 7]))\<rparr>"

definition svcRecommendRejects :: services where
  "svcRecommendRejects =
     demoServices\<lparr>recommendReply :=
       (\<lambda>k _ _. if k = 1 then Inl (JsError ''503 Service Unavailable'')
                 else Inr (Some (veo, ''dialogue-heavy scene'')))\<rparr>"

definition svcRecommendUnparsable :: services where
  "svcRecommendUnparsable =
     demoServices\<lparr>recommendReply :=
       (\<lambda>k _ _. if k = 1 then Inr None else Inr (Some (veo, ''dialogue-heavy scene'')))\<rparr>"

text \<open>
  A finished storyboard of two scenes, and the same with the first scene's video pending.
\<close>

definition readyScene :: "nat \<Rightarrow> VideoScene" where
  "readyScene i =
     completeScene ''data:image/png;base64,START''
       (generateAllModelPrompts (demoInitialScenes ! i) demoRoster)
       ''data:image/png;base64,END''
       (placeholderScene demoServices i (demoInitialScenes ! i))"

definition readyState :: ProducerState where
  "readyState =
     initialState\<lparr>showImportModal := False, scenes := [readyScene 0, readyScene 1],
       selectedSceneId := Some (scene_id (readyScene 0)), importedPages := demoPages\<rparr>"

definition pendingState :: ProducerState where
  "pendingState = readyState\<lparr>scenes := [setPending (readyScene 0), readyScene 1]\<rparr>"

definition svcRegenerationRefused :: services where
  "svcRegenerationRefused =
     demoServices\<lparr>regenerateReply :=
       (\<lambda>_ _ _. Inr [\<lparr>inlineData = None, partText = Some ''I cannot edit this image.''\<rparr>])\<rparr>"

definition svcDoneAtSecondPoll :: services where
  "svcDoneAtSecondPoll =
     demoServices\<lparr>pollReplies :=
       [Inr pendingOperation, Inr (doneOperation ''https://video.example/X?alt=media'')]\<rparr>"

definition svcNeverDone :: services where
  "svcNeverDone = demoServices\<lparr>pollReplies := [Inr pendingOperation, Inr pendingOperation]\<rparr>"

definition svcJobFails :: services where
  "svcJobFails =
     demoServices\<lparr>pollReplies :=
       [Inr \<lparr>opDone = True, opError = Some ''quota exceeded'', videoUri = None\<rparr>]\<rparr>"

text \<open>Worlds in which the submission, a poll or the download fails.\<close>

definition svcSubmitRejected :: services where
  "svcSubmitRejected = demoServices\<lparr>submitReply := (\<lambda>_. Inl (JsError ''API key not valid''))\<rparr>"

definition svcPollRejected :: services where
  "svcPollRejected = demoServices\<lparr>pollReplies := [Inr pendingOperation, Inl NonError]\<rparr>"

definition svcDownloadRejected :: services where
  "svcDownloadRejected = demoServices\<lparr>downloadReply := (\<lambda>_. Inl (JsError ''Failed to fetch''))\<rparr>"

definition svcDownloadRefused :: services where
  "svcDownloadRefused =
     demoServices\<lparr>downloadReply :=
       (\<lambda>_. Inr \<lparr>ok = False, statusText = ''Forbidden'', objectUrl = []\<rparr>)\<rparr>"



section \<open>Decimal rendering\<close>

lemma digit_char_inj:
  assumes "a < 10" "b < 10" "digit_char a = digit_char b"
  shows "a = b"
proof -
  have A: "a \<in> {0,1,2,3,4,5,6,7,8,9}" using assms(1) by auto
  have B: "b \<in> {0,1,2,3,4,5,6,7,8,9}" using assms(2) by auto
  show ?thesis using A B assms(3) by (auto simp: digit_char_def)
qed

lemma show_nat_nonempty: "show_nat n \<noteq> []"
  by (subst show_nat.simps) simp

lemma length_show_nat_small: "n < 10 \<Longrightarrow> length (show_nat n) = 1"
  by (subst show_nat.simps) simp

lemma length_show_nat_big: "\<not> n < 10 \<Longrightarrow> length (show_nat n) = Suc (length (show_nat (n div 10)))"
  by (subst show_nat.simps) simp

lemma length_show_nat_pos: "0 < length (show_nat n)"
  using show_nat_nonempty [of n] by simp

lemma length_show_nat_mono: "n \<le> m \<Longrightarrow> length (show_nat n) \<le> length (show_nat m)"
proof (induction m arbitrary: n rule: show_nat.induct)
  case (1 m)
  show ?case
  proof (cases "m < 10")
    case True
    with "1.prems" have "n < 10" by simp
    with True show ?thesis by (simp add: length_show_nat_small)
  next
    case False
    show ?thesis
    proof (cases "n < 10")
      case True
      then show ?thesis using False length_show_nat_pos [of "m div 10"]
        by (simp add: length_show_nat_small length_show_nat_big)
    next
      case nbig: False
      have "n div 10 \<le> m div 10" using "1.prems" by (rule div_le_mono)
      with "1.IH" [OF False] have "length (show_nat (n div 10)) \<le> length (show_nat (m div 10))" .
      with False nbig show ?thesis by (simp add: length_show_nat_big)
    qed
  qed
qed

lemma show_nat_inj: "show_nat n = show_nat m \<Longrightarrow> n = m"
proof (induction n arbitrary: m rule: show_nat.induct)
  case (1 n)
  from "1.prems" have len: "length (show_nat n) = length (show_nat m)" by simp
  show ?case
  proof (cases "n < 10")
    case True
    have msmall: "m < 10"
    proof (rule ccontr)
      assume "\<not> m < 10"
      then have "length (show_nat m) = Suc (length (show_nat (m div 10)))"
        by (rule length_show_nat_big)
      with len True length_show_nat_pos [of "m div 10"] show False
        by (simp add: length_show_nat_small)
    qed
    have "show_nat n = [digit_char n]" using True by (subst show_nat.simps) simp
    moreover have "show_nat m = [digit_char m]" using msmall by (subst show_nat.simps) simp
    ultimately have "digit_char n = digit_char m" using "1.prems" by simp
    with True msmall show ?thesis by (rule digit_char_inj)
  next
    case False
    have mbig: "\<not> m < 10"
    proof
      assume "m < 10"
      then have "length (show_nat m) = 1" by (rule length_show_nat_small)
      with len False length_show_nat_pos [of "n div 10"] show False
        by (simp add: length_show_nat_big)
    qed
    have "show_nat n = show_nat (n div 10) @ [digit_char (n mod 10)]"
      using False by (subst show_nat.simps) simp
    moreover have "show_nat m = show_nat (m div 10) @ [digit_char (m mod 10)]"
      using mbig by (subst show_nat.simps) simp
    ultimately have eq: "show_nat (n div 10) = show_nat (m div 10)"
      and d: "digit_char (n mod 10) = digit_char (m mod 10)"
      using "1.prems" by simp_all
    from "1.IH" [OF False eq] have q: "n div 10 = m div 10" .
    have r: "n mod 10 = m mod 10" using d by (intro digit_char_inj) simp_all
    have "n = 10 * (n div 10) + n mod 10" by simp
    also have "\<dots> = 10 * (m div 10) + m mod 10" using q r by simp
    also have "\<dots> = m" by simp
    finally show ?thesis .
  qed
qed

section \<open>Scene identifiers and patches by identifier\<close>

text \<open>
  Two identifiers made in one build, the later one from a clock reading that is not
  earlier, differ: neither the reading nor the index gets shorter, so equal identifiers
  would have equal readings and equal indices.
\<close>

lemma stamped_ids_differ:
  assumes "i < j" and "t \<le> u"
  shows "show_nat t @ show_nat i \<noteq> show_nat u @ show_nat j"
proof
  assume eq: "show_nat t @ show_nat i = show_nat u @ show_nat j"
  then have "length (show_nat t) + length (show_nat i) = length (show_nat u) + length (show_nat j)"
    by (metis length_append)
  moreover have "length (show_nat t) \<le> length (show_nat u)"
    using assms(2) by (rule length_show_nat_mono)
  moreover have "length (show_nat i) \<le> length (show_nat j)"
    using assms(1) by (intro length_show_nat_mono) simp
  ultimately have "length (show_nat t) = length (show_nat u)" by linarith
  with eq have "show_nat i = show_nat j" by simp
  then have "i = j" by (rule show_nat_inj)
  with assms(1) show False by simp
qed

lemma scene_id_placeholderScene [simp]:
  "scene_id (placeholderScene svc i panel) = show_nat (now svc i) @ show_nat i"
  by (simp add: placeholderScene_def)

lemma length_placeholderScenes [simp]:
  "length (placeholderScenes svc ds) = length ds"
  by (simp add: placeholderScenes_def)

lemma nth_placeholderScenes:
  "i < length ds \<Longrightarrow> placeholderScenes svc ds ! i = placeholderScene svc i (ds ! i)"
  by (simp add: placeholderScenes_def nth_enumerate_eq)

lemma placeholder_ids_distinct:
  assumes mono: "\<forall>i j. i < j \<and> j < length ds \<longrightarrow> now svc i \<le> now svc j"
  shows "distinct (map scene_id (placeholderScenes svc ds))"
proof -
  have "map scene_id (placeholderScenes svc ds) ! i \<noteq> map scene_id (placeholderScenes svc ds) ! j"
    if "i < j" "j < length ds" for i j
  proof -
    from that have "now svc i \<le> now svc j" using mono by blast
    with that(1) have "show_nat (now svc i) @ show_nat i \<noteq> show_nat (now svc j) @ show_nat j"
      by (rule stamped_ids_differ)
    with that show ?thesis by (simp add: nth_placeholderScenes)
  qed
  then have "\<forall>i j. i < j \<and> j < length (map scene_id (placeholderScenes svc ds)) \<longrightarrow>
       map scene_id (placeholderScenes svc ds) ! i \<noteq> map scene_id (placeholderScenes svc ds) ! j"
    by simp
  then show ?thesis
    by (metis distinct_conv_nth nat_neq_iff)
qed

lemma patchScene_distinct_update:
  assumes "distinct (map scene_id xs)" and "k < length xs"
  shows "patchScene (scene_id (xs ! k)) f xs = xs[k := f (xs ! k)]"
proof (rule nth_equalityI)
  show "length (patchScene (scene_id (xs ! k)) f xs) = length (xs[k := f (xs ! k)])"
    by (simp add: patchScene_def)
next
  fix i assume "i < length (patchScene (scene_id (xs ! k)) f xs)"
  then have i: "i < length xs" by (simp add: patchScene_def)
  have "scene_id (xs ! i) = scene_id (xs ! k) \<longleftrightarrow> i = k"
    using assms i by (metis distinct_conv_nth length_map nth_map)
  with i assms(2) show "patchScene (scene_id (xs ! k)) f xs ! i = xs[k := f (xs ! k)] ! i"
    by (auto simp: patchScene_def nth_list_update)
qed

section \<open>Patches\<close>

lemma length_patchScene [simp]: "length (patchScene k f xs) = length xs"
  by (simp add: patchScene_def)

lemma map_patchScene:
  assumes "\<And>s. g (f s) = g s"
  shows "map g (patchScene k f xs) = map g xs"
  using assms by (simp add: patchScene_def)

lemma nth_patchScene:
  "i < length xs \<Longrightarrow>
   patchScene k f xs ! i = (if scene_id (xs ! i) = k then f (xs ! i) else xs ! i)"
  by (simp add: patchScene_def)

section \<open>The frame loop\<close>

lemma frameLoop_states:
  assumes "\<And>sf ps ef s. g (completeScene sf ps ef s) = g s"
    and "s' \<in> set (fst (frameLoop svc pages chars n zs st))"
  shows "s' = st\<lparr>scenes := scenes s'\<rparr> \<and> map g (scenes s') = map g (scenes st)"
  using assms(2)
proof (induction zs arbitrary: n st)
  case Nil
  then show ?case by simp
next
  case (Cons z zs)
  obtain panel placeholder where z: "z = (panel, placeholder)" by (cases z)
  show ?case
  proof (cases "frameStage svc pages chars n panel")
    case (Inl e)
    with Cons.prems z show ?thesis by simp
  next
    case (Inr r)
    obtain sf ps ef where r: "r = (sf, ps, ef)" by (cases r)
    let ?st' = "st\<lparr>scenes := patchScene (scene_id placeholder) (completeScene sf ps ef) (scenes st)\<rparr>"
    have g': "map g (scenes ?st') = map g (scenes st)"
      using assms(1) by (simp add: map_patchScene)
    from Cons.prems z Inr r
    have "s' = ?st' \<or> s' \<in> set (fst (frameLoop svc pages chars (Suc n) zs ?st'))"
      by (auto simp: Let_def case_prod_beta)
    then show ?thesis
    proof
      assume "s' = ?st'"
      with g' show ?thesis by simp
    next
      assume "s' \<in> set (fst (frameLoop svc pages chars (Suc n) zs ?st'))"
      from Cons.IH [OF this] g' show ?thesis by (cases st) simp
    qed
  qed
qed

lemma frameLoop_fails_at:
  assumes "i < length zs"
    and "frameStage svc pages chars (n + i) (fst (zs ! i)) = Inl e"
    and "\<forall>j<i. \<exists>r. frameStage svc pages chars (n + j) (fst (zs ! j)) = Inr r"
  shows "snd (frameLoop svc pages chars n zs st) = Some e
         \<and> length (fst (frameLoop svc pages chars n zs st)) = i"
  using assms
proof (induction zs arbitrary: n st i)
  case Nil
  then show ?case by simp
next
  case (Cons z zs)
  obtain panel placeholder where z: "z = (panel, placeholder)" by (cases z)
  show ?case
  proof (cases i)
    case 0
    with Cons.prems z show ?thesis by simp
  next
    case (Suc i')
    from Cons.prems(3) Suc have "\<exists>r. frameStage svc pages chars (n + 0) (fst ((z # zs) ! 0)) = Inr r"
      by blast
    then obtain sf ps ef where ok: "frameStage svc pages chars n panel = Inr (sf, ps, ef)"
      using z by auto
    let ?st' = "st\<lparr>scenes := patchScene (scene_id placeholder) (completeScene sf ps ef) (scenes st)\<rparr>"
    have a: "i' < length zs" using Cons.prems(1) Suc by simp
    have b: "frameStage svc pages chars (Suc n + i') (fst (zs ! i')) = Inl e"
      using Cons.prems(2) Suc by simp
    have c: "\<forall>j<i'. \<exists>r. frameStage svc pages chars (Suc n + j) (fst (zs ! j)) = Inr r"
    proof (intro allI impI)
      fix j assume "j < i'"
      then have "Suc j < i" using Suc by simp
      with Cons.prems(3) have "\<exists>r. frameStage svc pages chars (n + Suc j) (fst ((z # zs) ! Suc j)) = Inr r"
        by blast
      then show "\<exists>r. frameStage svc pages chars (Suc n + j) (fst (zs ! j)) = Inr r" by simp
    qed
    from Cons.IH [OF a b c, of ?st'] ok z Suc show ?thesis
      by (simp add: Let_def case_prod_beta)
  qed
qed

lemma frameLoop_all_ok:
  "snd (frameLoop svc pages chars n zs st) = None \<longleftrightarrow>
     (\<forall>j<length zs. \<exists>r. frameStage svc pages chars (n + j) (fst (zs ! j)) = Inr r)"
proof (induction zs arbitrary: n st)
  case Nil
  then show ?case by simp
next
  case (Cons z zs)
  obtain panel placeholder where z: "z = (panel, placeholder)" by (cases z)
  show ?case
  proof (cases "frameStage svc pages chars n panel")
    case (Inl e)
    then have "\<not> (\<exists>r. frameStage svc pages chars (n + 0) (fst ((z # zs) ! 0)) = Inr r)"
      using z by simp
    then have "\<not> (\<forall>j<length (z # zs). \<exists>r. frameStage svc pages chars (n + j) (fst ((z # zs) ! j)) = Inr r)"
      by blast
    with Inl z show ?thesis by simp
  next
    case (Inr r)
    obtain sf ps ef where r: "r = (sf, ps, ef)" by (cases r)
    let ?st' = "st\<lparr>scenes := patchScene (scene_id placeholder) (completeScene sf ps ef) (scenes st)\<rparr>"
    have "(\<forall>j<length (z # zs). \<exists>r. frameStage svc pages chars (n + j) (fst ((z # zs) ! j)) = Inr r)
        \<longleftrightarrow> (\<forall>j<length zs. \<exists>r. frameStage svc pages chars (Suc n + j) (fst (zs ! j)) = Inr r)"
      using Inr r z by (auto simp: less_Suc_eq_0_disj)
    with Cons.IH [of "Suc n" ?st'] Inr r z show ?thesis
      by (simp add: Let_def case_prod_beta)
  qed
qed

lemma frameLoop_length_ok:
  "snd (frameLoop svc pages chars n zs st) = None \<Longrightarrow>
   length (fst (frameLoop svc pages chars n zs st)) = length zs"
proof (induction zs arbitrary: n st)
  case Nil
  then show ?case by simp
next
  case (Cons z zs)
  obtain panel placeholder where z: "z = (panel, placeholder)" by (cases z)
  from Cons.prems z obtain sf ps ef where ok: "frameStage svc pages chars n panel = Inr (sf, ps, ef)"
    by (cases "frameStage svc pages chars n panel") (auto split: prod.splits)
  let ?st' = "st\<lparr>scenes := patchScene (scene_id placeholder) (completeScene sf ps ef) (scenes st)\<rparr>"
  from Cons.prems z ok have "snd (frameLoop svc pages chars (Suc n) zs ?st') = None"
    by (simp add: Let_def case_prod_beta)
  from Cons.IH [OF this] z ok show ?case
    by (simp add: Let_def case_prod_beta)
qed

section \<open>The shape of a build\<close>

lemma build_trace:
  assumes "pages \<noteq> []" and "generateStoryboardFromPages svc pages chars = Inr ds"
  shows "handleGenerateStoryboard svc chars pages st =
     startBuild pages st
     # (startBuild pages st)\<lparr>scenes := placeholderScenes svc ds\<rparr>
     # fst (frameLoop svc pages chars 0 (zip ds (placeholderScenes svc ds))
            ((startBuild pages st)\<lparr>scenes := placeholderScenes svc ds\<rparr>))
     @ [case snd (frameLoop svc pages chars 0 (zip ds (placeholderScenes svc ds))
            ((startBuild pages st)\<lparr>scenes := placeholderScenes svc ds\<rparr>)) of
          Some e \<Rightarrow> buildFailed e
             (last ((startBuild pages st)\<lparr>scenes := placeholderScenes svc ds\<rparr>
               # fst (frameLoop svc pages chars 0 (zip ds (placeholderScenes svc ds))
                       ((startBuild pages st)\<lparr>scenes := placeholderScenes svc ds\<rparr>))))
        | None \<Rightarrow> buildSucceeded (placeholderScenes svc ds)
             (last ((startBuild pages st)\<lparr>scenes := placeholderScenes svc ds\<rparr>
               # fst (frameLoop svc pages chars 0 (zip ds (placeholderScenes svc ds))
                       ((startBuild pages st)\<lparr>scenes := placeholderScenes svc ds\<rparr>))))]"
  using assms
  by (simp add: handleGenerateStoryboard_def Let_def case_prod_beta del: last.simps)

lemma length_zip_placeholders [simp]:
  "length (zip ds (placeholderScenes svc ds)) = length ds"
  by simp

lemma frameLoop_last:
  assumes "\<And>sf ps ef s. g (completeScene sf ps ef s) = g s"
  shows "last (st # fst (frameLoop svc pages chars n zs st))
           = st\<lparr>scenes := scenes (last (st # fst (frameLoop svc pages chars n zs st)))\<rparr>
         \<and> map g (scenes (last (st # fst (frameLoop svc pages chars n zs st)))) = map g (scenes st)"
proof (cases "fst (frameLoop svc pages chars n zs st) = []")
  case True
  then show ?thesis by simp
next
  case False
  then have "last (st # fst (frameLoop svc pages chars n zs st))
               \<in> set (fst (frameLoop svc pages chars n zs st))"
    by simp
  from frameLoop_states [of g, OF assms this] show ?thesis .
qed

lemma scene_id_completeScene [simp]: "scene_id (completeScene sf ps ef s) = scene_id s"
  by (simp add: completeScene_def)

lemma alerts_startBuild [simp]: "alerts (startBuild pages st) = alerts st"
  by (simp add: startBuild_def)

section \<open>The video job\<close>

lemma pollLoop_invariant:
  assumes "P s" and "\<And>m s. P s \<Longrightarrow> P (cb m s)"
  shows "P (fst (pollLoop cb replies n operation s))"
  using assms(1)
proof (induction replies arbitrary: n operation s)
  case Nil
  then show ?case using assms(2) by simp
next
  case (Cons reply replies)
  show ?case
  proof (cases "opDone operation")
    case True
    with Cons.prems show ?thesis by simp
  next
    case False
    let ?s' = "cb (progressMessages ! (n mod length progressMessages)) s"
    have P': "P ?s'" using Cons.prems assms(2) by simp
    show ?thesis
    proof (cases reply)
      case (Inl e)
      with False P' show ?thesis by (simp add: Let_def)
    next
      case (Inr operation')
      with False Cons.IH [OF P', of "Suc n" operation'] show ?thesis by (simp add: Let_def)
    qed
  qed
qed

lemma retrieveVideo_invariant:
  assumes "P s" and "\<And>m s. P s \<Longrightarrow> P (cb m s)"
  shows "P (fst (retrieveVideo svc cb operation s))"
  using assms
  by (simp add: retrieveVideo_def Let_def split: option.splits sum.splits)

lemma generateVeoVideo_invariant:
  assumes "P s" and "\<And>m s. P s \<Longrightarrow> P (cb m s)"
  shows "P (fst (generateVeoVideo svc p cb sf d s))"
proof -
  let ?s1 = "cb ''Starting video generation...'' s"
  have P1: "P ?s1" using assms by simp
  show ?thesis
  proof (cases "submitReply svc (requestPayloadOf p sf)")
    case (Inl e)
    with P1 show ?thesis by (simp add: generateVeoVideo_def)
  next
    case (Inr op0)
    obtain s2 r where pl: "pollLoop cb (pollReplies svc) 0 op0 ?s1 = (s2, r)"
      by (cases "pollLoop cb (pollReplies svc) 0 op0 ?s1")
    have "P (fst (pollLoop cb (pollReplies svc) 0 op0 ?s1))"
      using P1 assms(2) by (rule pollLoop_invariant)
    with pl have P2: "P s2" by simp
    have P3: "P (fst (retrieveVideo svc cb operation s2))" for operation
      using P2 assms(2) by (rule retrieveVideo_invariant)
    from Inr pl P2 P3 show ?thesis
      by (cases r) (simp_all add: generateVeoVideo_def Let_def case_prod_beta)
  qed
qed

lemma scene_id_setters [simp]:
  "scene_id (setPending s) = scene_id s"
  "scene_id (setProgress m s) = scene_id s"
  "scene_id (setDone u s) = scene_id s"
  "scene_id (setError e s) = scene_id s"
  "scene_id (setFrame ft nf s) = scene_id s"
  by (simp_all add: setPending_def setProgress_def setDone_def setError_def setFrame_def
        split: FrameType.splits)

lemma handleCreateVeoVideo_ids:
  "map scene_id (scenes (fst (handleCreateVeoVideo svc scene st))) = map scene_id (scenes st)"
proof (cases "\<not> truthy (veoPromptOf scene) \<or> \<not> truthy (startFrame scene)")
  case True
  then show ?thesis by (simp add: handleCreateVeoVideo_def)
next
  case False
  let ?st1 = "st\<lparr>scenes := patchScene (scene_id scene) setPending (scenes st)\<rparr>"
  let ?P = "\<lambda>s. map scene_id (scenes s) = map scene_id (scenes st)"
  have "?P ?st1" by (simp add: map_patchScene)
  moreover have "\<And>m s. ?P s \<Longrightarrow> ?P (progressCallback (scene_id scene) m s)"
    by (simp add: progressCallback_def map_patchScene)
  ultimately have inv: "?P (fst (generateVeoVideo svc p (progressCallback (scene_id scene)) sf d ?st1))"
    for p sf d
    by (rule generateVeoVideo_invariant)
  obtain st2 requests r where gen:
    "generateVeoVideo svc (or_else (veoPromptOf scene) []) (progressCallback (scene_id scene))
       (Some (startFrameDataOf scene)) (VideoScene.duration scene) ?st1 = (st2, requests, r)"
    by (metis prod_cases3)
  from inv [of "or_else (veoPromptOf scene) []" _ "VideoScene.duration scene"] gen
  have st2: "map scene_id (scenes st2) = map scene_id (scenes st)"
    by (metis fst_conv)
  show ?thesis
    using False gen st2
    by (cases r) (simp_all add: handleCreateVeoVideo_def Let_def map_patchScene)
qed

lemma handleRegenerateFrame_scenes:
  "scenes (handleRegenerateFrame svc sceneId frameType editPrompt st) = scenes st
   \<or> (\<exists>newFrame. scenes (handleRegenerateFrame svc sceneId frameType editPrompt st)
         = patchScene sceneId (setFrame frameType newFrame) (scenes st))"
  by (auto simp: handleRegenerateFrame_def Let_def split: option.splits sum.splits)

lemma handleRegenerateFrame_ids:
  "map scene_id (scenes (handleRegenerateFrame svc sceneId frameType editPrompt st))
     = map scene_id (scenes st)"
  using handleRegenerateFrame_scenes [of svc sceneId frameType editPrompt st]
  by (auto simp: map_patchScene)

section \<open>Published states of a build\<close>

lemma placeholderScene_fields [simp]:
  "VideoScene.description (placeholderScene svc i panel) = sceneDescription panel"
  "VideoScene.duration (placeholderScene svc i panel) = duration panel"
  "VideoScene.sourcePageIndex (placeholderScene svc i panel) = sourcePageIndex panel"
  "isLoading (placeholderScene svc i panel) = True"
  "videoGenerationStatus (placeholderScene svc i panel) = Idle"
  by (simp_all add: placeholderScene_def)

lemma scenes_buildSucceeded [simp]: "scenes (buildSucceeded phs st) = scenes st"
  by (simp add: buildSucceeded_def split: list.splits)

text \<open>
  Every state a build publishes between the placeholders and its last state carries the
  placeholders' scenes, up to the fields the completion patch writes.
\<close>

lemma build_middle_states:
  assumes pages: "pages \<noteq> []"
    and decomposed: "generateStoryboardFromPages svc pages chars = Inr ds"
    and g: "\<And>sf ps ef s. g (completeScene sf ps ef s) = g s"
    and j: "1 \<le> j" "Suc j < length (handleGenerateStoryboard svc chars pages st)"
  shows "map g (scenes (handleGenerateStoryboard svc chars pages st ! j))
           = map g (placeholderScenes svc ds)"
proof -
  let ?st1 = "(startBuild pages st)\<lparr>scenes := placeholderScenes svc ds\<rparr>"
  let ?fl = "frameLoop svc pages chars 0 (zip ds (placeholderScenes svc ds)) ?st1"
  obtain final where tr: "handleGenerateStoryboard svc chars pages st
      = startBuild pages st # (?st1 # fst ?fl) @ [final]"
    using build_trace [OF pages decomposed, of st] by simp
  from j tr obtain j' where j': "j = Suc j'" "j' < length (?st1 # fst ?fl)"
    by (cases j) auto
  with tr have nth: "handleGenerateStoryboard svc chars pages st ! j = (?st1 # fst ?fl) ! j'"
    by (cases j') (simp_all add: nth_append)
  show ?thesis
  proof (cases j')
    case 0
    with nth show ?thesis by simp
  next
    case (Suc j'')
    with j' have "(?st1 # fst ?fl) ! j' \<in> set (fst ?fl)" by simp
    from frameLoop_states [of g, OF g this] nth show ?thesis by simp
  qed
qed

lemma build_last_state_ok:
  assumes pages: "pages \<noteq> []"
    and decomposed: "generateStoryboardFromPages svc pages chars = Inr ds"
    and g: "\<And>sf ps ef s. g (completeScene sf ps ef s) = g s"
    and ok: "\<forall>j<length ds. \<exists>r. frameStage svc pages chars j (ds ! j) = Inr r"
  shows "map g (scenes (last (handleGenerateStoryboard svc chars pages st)))
           = map g (placeholderScenes svc ds)
         \<and> length (handleGenerateStoryboard svc chars pages st) = length ds + 3"
proof -
  let ?st1 = "(startBuild pages st)\<lparr>scenes := placeholderScenes svc ds\<rparr>"
  let ?zs = "zip ds (placeholderScenes svc ds)"
  let ?fl = "frameLoop svc pages chars 0 ?zs ?st1"
  have "\<forall>j<length ?zs. \<exists>r. frameStage svc pages chars (0 + j) (fst (?zs ! j)) = Inr r"
    using ok by simp
  then have none: "snd ?fl = None" by (simp only: frameLoop_all_ok)
  then have len: "length (fst ?fl) = length ds"
    using frameLoop_length_ok [of svc pages chars 0 ?zs ?st1] by simp
  have tr: "handleGenerateStoryboard svc chars pages st
      = startBuild pages st # ?st1 # fst ?fl
          @ [buildSucceeded (placeholderScenes svc ds) (last (?st1 # fst ?fl))]"
    using build_trace [OF pages decomposed, of st] none by simp
  have "map g (scenes (last (?st1 # fst ?fl))) = map g (scenes ?st1)"
    using frameLoop_last [of g ?st1 svc pages chars 0 ?zs, OF g] by blast
  with tr len show ?thesis by simp
qed

section \<open>The example build\<close>

lemma demo_pages: "demoPages \<noteq> []"
  by (simp add: demoPages_def)

lemma demo_decomposed:
  "generateStoryboardFromPages demoServices demoPages demoRoster = Inr demoInitialScenes"
  by (simp add: generateStoryboardFromPages_def demoServices_def demoRawPanels_def
      recommendVideoModel_def demoInitialScenes_def)

lemma demo_length: "length demoInitialScenes = Suc (Suc 0)"
  by (simp add: demoInitialScenes_def)

lemma demo_frames_ok:
  "\<forall>j<length demoInitialScenes.
     \<exists>r. frameStage demoServices demoPages demoRoster j (demoInitialScenes ! j) = Inr r"
  unfolding demo_length
  by (simp add: All_less_Suc frameStage_def demoServices_def demoInitialScenes_def
      enrichPanel_def rawPanel_def pageAt_def demoPages_def generateVideoFrame_def
      generateWebtoonEndFrame_def imageOfParts_def imageParts_def Let_def)

lemma demo_trace_length:
  "length (handleGenerateStoryboard demoServices demoRoster demoPages initialState) = 5"
  using build_last_state_ok [OF demo_pages demo_decomposed, of scene_id initialState] demo_frames_ok
  by (simp add: demo_length)

section \<open>Ingestion of the decomposition\<close>

lemma clampDuration_le: "clampDuration d \<le> 10"
  by (simp add: clampDuration_def)

lemma clampDuration_ge: "1 / 2 \<le> d \<Longrightarrow> 1 \<le> clampDuration d"
  by (simp add: clampDuration_def round_def le_floor_iff)

lemma enrichedPanels_ok:
  assumes "enrichedPanels svc n panels = Inr ds"
  shows "length ds = length panels
       \<and> (\<forall>k<length panels. \<exists>m r.
             recommendVideoModel svc (n + k) (sceneDescription (panels ! k)) (narrative (panels ! k))
               = Inr (m, r)
             \<and> ds ! k = enrichPanel (panels ! k) m r)"
  using assms
proof (induction panels arbitrary: n ds)
  case Nil
  then show ?case by simp
next
  case (Cons panel rest)
  from Cons.prems obtain m r where rec:
    "recommendVideoModel svc n (sceneDescription panel) (narrative panel) = Inr (m, r)"
    by (cases "recommendVideoModel svc n (sceneDescription panel) (narrative panel)") auto
  from Cons.prems rec obtain ps where rest: "enrichedPanels svc (Suc n) rest = Inr ps"
    and ds: "ds = enrichPanel panel m r # ps"
    by (cases "enrichedPanels svc (Suc n) rest") auto
  from Cons.IH [OF rest] have len: "length ps = length rest"
    and all: "\<forall>k<length rest. \<exists>m r.
             recommendVideoModel svc (Suc n + k) (sceneDescription (rest ! k)) (narrative (rest ! k))
               = Inr (m, r)
             \<and> ps ! k = enrichPanel (rest ! k) m r"
    by simp_all
  have "\<exists>m r. recommendVideoModel svc (n + k) (sceneDescription ((panel # rest) ! k))
                  (narrative ((panel # rest) ! k)) = Inr (m, r)
             \<and> ds ! k = enrichPanel ((panel # rest) ! k) m r"
    if "k < length (panel # rest)" for k
  proof (cases k)
    case 0
    with rec ds show ?thesis by simp
  next
    case (Suc k')
    with that all ds show ?thesis by simp
  qed
  with len ds show ?case by simp
qed

lemma enrichedPanels_fails:
  "(\<exists>e. enrichedPanels svc n panels = Inl e) \<longleftrightarrow>
     (\<exists>k<length panels. \<exists>e.
        recommendVideoModel svc (n + k) (sceneDescription (panels ! k)) (narrative (panels ! k)) = Inl e)"
proof (induction panels arbitrary: n)
  case Nil
  then show ?case by simp
next
  case (Cons panel rest)
  show ?case
  proof (cases "recommendVideoModel svc n (sceneDescription panel) (narrative panel)")
    case (Inl e)
    then have "\<exists>k<length (panel # rest). \<exists>e.
        recommendVideoModel svc (n + k) (sceneDescription ((panel # rest) ! k))
          (narrative ((panel # rest) ! k)) = Inl e"
      by (intro exI [of _ 0]) simp
    with Inl show ?thesis by simp
  next
    case (Inr mr)
    obtain m r where mr: "mr = (m, r)" by (cases mr)
    have "(\<exists>e. enrichedPanels svc n (panel # rest) = Inl e)
            \<longleftrightarrow> (\<exists>e. enrichedPanels svc (Suc n) rest = Inl e)"
      using Inr mr by (cases "enrichedPanels svc (Suc n) rest") simp_all
    also have "\<dots> \<longleftrightarrow> (\<exists>k<length rest. \<exists>e.
        recommendVideoModel svc (Suc n + k) (sceneDescription (rest ! k)) (narrative (rest ! k)) = Inl e)"
      by (rule Cons.IH)
    also have "\<dots> \<longleftrightarrow> (\<exists>k<length (panel # rest). \<exists>e.
        recommendVideoModel svc (n + k) (sceneDescription ((panel # rest) ! k))
          (narrative ((panel # rest) ! k)) = Inl e)"
      using Inr by (auto simp: less_Suc_eq_0_disj)
    finally show ?thesis .
  qed
qed

lemma enrichPanel_fields [simp]:
  "sceneDescription (enrichPanel p m r) = sceneDescription p"
  "narrative (enrichPanel p m r) = narrative p"
  "duration (enrichPanel p m r) = clampDuration (duration p)"
  "charactersInScene (enrichPanel p m r) = charactersInScene p"
  "sourcePageIndex (enrichPanel p m r) = sourcePageIndex p"
  "recommendedModel (enrichPanel p m r) = m"
  "reasoning (enrichPanel p m r) = r"
  by (simp_all add: enrichPanel_def)

lemma frameStage_page_in_range:
  assumes "frameStage svc pages chars i panel = Inr r"
  shows "0 \<le> sourcePageIndex panel \<and> sourcePageIndex panel < int (length pages)"
proof (rule ccontr)
  assume "\<not> (0 \<le> sourcePageIndex panel \<and> sourcePageIndex panel < int (length pages))"
  then have "pageAt pages (sourcePageIndex panel) = None" by (simp add: pageAt_def)
  then have "frameStage svc pages chars i panel = Inl (JsError undefinedReadMessage)"
    by (simp add: frameStage_def generateVideoFrame_def)
  with assms show False by simp
qed

lemma duration_completeScene [simp]:
  "VideoScene.duration (completeScene sf ps ef s) = VideoScene.duration s"
  "VideoScene.sourcePageIndex (completeScene sf ps ef s) = VideoScene.sourcePageIndex s"
  by (simp_all add: completeScene_def)

lemma build_failed_decomposition:
  assumes "pages \<noteq> []" and "generateStoryboardFromPages svc pages chars = Inl e"
  shows "handleGenerateStoryboard svc chars pages st
           = [startBuild pages st, buildFailed e (startBuild pages st)]"
  using assms by (simp add: handleGenerateStoryboard_def Let_def)

text \<open>
  From the placeholder state on, a published scene list is either empty or as long as the
  decomposition, and its scenes carry the placeholders' durations and page indices; the
  last state has scenes only if every frame stage succeeded.
\<close>

lemma build_states_from_placeholders:
  assumes pages: "pages \<noteq> []"
    and decomposed: "generateStoryboardFromPages svc pages chars = Inr ds"
    and g: "\<And>sf ps ef s. g (completeScene sf ps ef s) = g s"
    and j: "1 \<le> j" "j < length (handleGenerateStoryboard svc chars pages st)"
    and nonempty: "scenes (handleGenerateStoryboard svc chars pages st ! j) \<noteq> []"
  shows "map g (scenes (handleGenerateStoryboard svc chars pages st ! j))
           = map g (placeholderScenes svc ds)
         \<and> (Suc j = length (handleGenerateStoryboard svc chars pages st) \<longrightarrow>
              (\<forall>k<length ds. \<exists>r. frameStage svc pages chars k (ds ! k) = Inr r))"
proof (cases "Suc j < length (handleGenerateStoryboard svc chars pages st)")
  case True
  with build_middle_states [OF pages decomposed g j(1)] show ?thesis by simp
next
  case False
  with j have last: "Suc j = length (handleGenerateStoryboard svc chars pages st)" by simp
  let ?st1 = "(startBuild pages st)\<lparr>scenes := placeholderScenes svc ds\<rparr>"
  let ?zs = "zip ds (placeholderScenes svc ds)"
  let ?fl = "frameLoop svc pages chars 0 ?zs ?st1"
  have nth_last: "handleGenerateStoryboard svc chars pages st ! j
                   = last (handleGenerateStoryboard svc chars pages st)"
    using last by (metis diff_Suc_1 last_conv_nth length_0_conv nat.distinct(1))
  have none: "snd ?fl = None"
  proof (cases "snd ?fl")
    case None
    then show ?thesis .
  next
    case (Some e)
    with build_trace [OF pages decomposed, of st]
    have "scenes (last (handleGenerateStoryboard svc chars pages st)) = []"
      by (simp add: buildFailed_def)
    with nonempty nth_last show ?thesis by simp
  qed
  then have ok: "\<forall>k<length ds. \<exists>r. frameStage svc pages chars k (ds ! k) = Inr r"
    using frameLoop_all_ok [of svc pages chars 0 ?zs ?st1] by simp
  from build_last_state_ok [OF pages decomposed g ok, of st] nth_last ok show ?thesis by simp
qed

lemma demo_reply: "decomposeReply demoServices demoPages demoRoster = Inr (Some demoRawPanels)"
  by (simp add: demoServices_def)

lemma demo_last_scenes:
  "length (scenes (handleGenerateStoryboard demoServices demoRoster demoPages initialState ! 4)) = 2"
proof -
  have "handleGenerateStoryboard demoServices demoRoster demoPages initialState ! 4
          = last (handleGenerateStoryboard demoServices demoRoster demoPages initialState)"
  proof -
    have "handleGenerateStoryboard demoServices demoRoster demoPages initialState \<noteq> []"
      using demo_trace_length by auto
    then show ?thesis using demo_trace_length by (simp add: last_conv_nth)
  qed
  moreover have "map scene_id (scenes (last (handleGenerateStoryboard demoServices demoRoster demoPages initialState)))
          = map scene_id (placeholderScenes demoServices demoInitialScenes)"
    using build_last_state_ok [OF demo_pages demo_decomposed, of scene_id initialState] demo_frames_ok
    by simp
  ultimately have "length (map scene_id (scenes (handleGenerateStoryboard demoServices demoRoster demoPages initialState ! 4)))
          = length (map scene_id (placeholderScenes demoServices demoInitialScenes))"
    by simp
  then show ?thesis by (simp add: demo_length)
qed

section \<open>Recommendation\<close>

lemma recommendVideoModel_rejects:
  "(\<exists>e. recommendVideoModel svc k d n = Inl e) \<longleftrightarrow> (\<exists>e. recommendReply svc k d n = Inl e)"
  by (auto simp: recommendVideoModel_def split: sum.splits option.splits)

lemma recommendVideoModel_unparsable:
  "recommendReply svc k d n = Inr None \<Longrightarrow>
   recommendVideoModel svc k d n = Inr (seedance, ''Default recommendation due to an error.'')"
  by (simp add: recommendVideoModel_def)

section \<open>The example storyboard\<close>

lemma ready_scenes: "scenes readyState = [readyScene 0, readyScene 1]"
  by (simp add: readyState_def initialState_def)

lemma ready_ids_differ: "scene_id (readyScene 1) \<noteq> scene_id (readyScene 0)"
  by (simp add: readyScene_def show_nat.simps digit_char_def)

lemma ready_frames:
  "startFrame (readyScene i) = Some ''data:image/png;base64,START''"
  "endFrame (readyScene i) = Some ''data:image/png;base64,END''"
  by (simp_all add: readyScene_def completeScene_def)

section \<open>Outcome of a video run\<close>

lemma pollLoop_done:
  "opDone operation \<Longrightarrow> pollLoop cb replies n operation s = (s, Returned operation)"
  by (cases replies) simp_all

lemma pollLoop_outcome_indep:
  "snd (pollLoop cb replies n operation s) = snd (pollLoop cb' replies n operation s')"
proof (induction replies arbitrary: n operation s s')
  case Nil
  then show ?case by simp
next
  case (Cons reply replies)
  show ?case
  proof (cases reply)
    case (Inl e)
    then show ?thesis by (simp add: Let_def)
  next
    case (Inr operation')
    with Cons.IH show ?thesis by (simp add: Let_def)
  qed
qed

lemma pollLoop_settles:
  assumes "(\<exists>e. Inl e \<in> set replies) \<or> (\<exists>operation. Inr operation \<in> set replies \<and> opDone operation)"
  shows "snd (pollLoop cb replies n operation0 s) \<noteq> Unfinished"
  using assms
proof (induction replies arbitrary: n operation0 s)
  case Nil
  then show ?case by simp
next
  case (Cons reply replies)
  show ?case
  proof (cases "opDone operation0")
    case True
    then show ?thesis by simp
  next
    case notdone: False
    show ?thesis
    proof (cases reply)
      case (Inl e)
      with notdone show ?thesis by (simp add: Let_def)
    next
      case (Inr operation')
      show ?thesis
      proof (cases "opDone operation'")
        case True
        with Inr notdone show ?thesis by (simp add: Let_def pollLoop_done)
      next
        case False
        with Cons.prems Inr
        have "(\<exists>e. Inl e \<in> set replies) \<or> (\<exists>operation. Inr operation \<in> set replies \<and> opDone operation)"
          by auto
        from Cons.IH [OF this] Inr notdone show ?thesis by (simp add: Let_def)
      qed
    qed
  qed
qed

text \<open>One progress message before every poll: the job is done at poll number
  \<open>length pendings + 1\<close>.\<close>

lemma pollLoop_pending_then_done:
  assumes "\<forall>operation\<in>set pendings. \<not> opDone operation" and "opDone operationD"
    and "\<not> opDone operation0"
  shows "pollLoop cb (map Inr pendings @ Inr operationD # rest) n operation0 s
           = (fold cb (map (\<lambda>i. progressMessages ! (i mod length progressMessages))
                         [n..<Suc (n + length pendings)]) s,
              Returned operationD)"
  using assms
proof (induction pendings arbitrary: n operation0 s)
  case Nil
  then show ?case by (simp add: Let_def pollLoop_done)
next
  case (Cons p ps)
  let ?s' = "cb (progressMessages ! (n mod length progressMessages)) s"
  have ih: "pollLoop cb (map Inr ps @ Inr operationD # rest) (Suc n) p ?s'
           = (fold cb (map (\<lambda>i. progressMessages ! (i mod length progressMessages))
                         [Suc n..<Suc (Suc n + length ps)]) ?s',
              Returned operationD)"
    using Cons.prems by (intro Cons.IH) simp_all
  have upt: "[n..<Suc (n + length (p # ps))] = n # [Suc n..<Suc (Suc n + length ps)]"
    by (subst upt_rec) (simp del: upt_Suc)
  show ?case
    using Cons.prems(3) ih unfolding upt by (simp add: Let_def)
qed

lemma fold_log: "fold (\<lambda>m log. log @ [m]) ms log0 = log0 @ ms"
  by (induction ms arbitrary: log0) simp_all

lemma retrieveVideo_outcome_indep:
  "snd (retrieveVideo svc cb operation s) = snd (retrieveVideo svc cb' operation s')"
  by (simp add: retrieveVideo_def Let_def split: option.splits sum.splits)

lemma generateVeoVideo_requests:
  "fst (snd (generateVeoVideo svc p cb sf d s)) = [requestPayloadOf p sf]"
proof (cases "submitReply svc (requestPayloadOf p sf)")
  case (Inl e)
  then show ?thesis by (simp add: generateVeoVideo_def)
next
  case (Inr op0)
  obtain s2 r where "pollLoop cb (pollReplies svc) 0 op0 (cb ''Starting video generation...'' s) = (s2, r)"
    by (cases "pollLoop cb (pollReplies svc) 0 op0 (cb ''Starting video generation...'' s)")
  with Inr show ?thesis
    by (cases r) (simp_all add: generateVeoVideo_def Let_def case_prod_beta)
qed

text \<open>The outcome of the call, without the state.\<close>

lemma generateVeoVideo_outcome:
  "snd (snd (generateVeoVideo svc p cb sf d s)) =
     (case submitReply svc (requestPayloadOf p sf) of
        Inl e \<Rightarrow> Threw e
      | Inr op0 \<Rightarrow>
          (case snd (pollLoop (\<lambda>m u. u) (pollReplies svc) 0 op0 ()) of
             Unfinished \<Rightarrow> Unfinished
           | Threw e \<Rightarrow> Threw e
           | Returned operation \<Rightarrow> snd (retrieveVideo svc (\<lambda>m u. u) operation ())))"
proof (cases "submitReply svc (requestPayloadOf p sf)")
  case (Inl e)
  then show ?thesis by (simp add: generateVeoVideo_def)
next
  case (Inr op0)
  let ?s1 = "cb ''Starting video generation...'' s"
  obtain s2 r where pl: "pollLoop cb (pollReplies svc) 0 op0 ?s1 = (s2, r)"
    by (cases "pollLoop cb (pollReplies svc) 0 op0 ?s1")
  have "snd (pollLoop (\<lambda>m u. u) (pollReplies svc) 0 op0 ()) = snd (pollLoop cb (pollReplies svc) 0 op0 ?s1)"
    by (rule pollLoop_outcome_indep)
  with pl have r: "snd (pollLoop (\<lambda>m u. u) (pollReplies svc) 0 op0 ()) = r" by simp
  have rv: "snd (retrieveVideo svc cb operation s2) = snd (retrieveVideo svc (\<lambda>m u. u) operation ())"
    for operation
    by (rule retrieveVideo_outcome_indep)
  from Inr pl r rv show ?thesis
    by (cases r) (simp_all add: generateVeoVideo_def Let_def case_prod_beta)
qed

lemma generateVeoVideo_outcome_indep:
  "snd (snd (generateVeoVideo svc p cb sf d s)) = snd (snd (generateVeoVideo svc p cb' sf d s'))"
  by (simp only: generateVeoVideo_outcome)

lemma retrieveVideo_returns: "snd (retrieveVideo svc cb operation s) \<noteq> Unfinished"
  by (simp add: retrieveVideo_def Let_def split: option.splits sum.splits)

lemma generateVeoVideo_settles:
  assumes "(\<exists>e. Inl e \<in> set (pollReplies svc))
           \<or> (\<exists>operation. Inr operation \<in> set (pollReplies svc) \<and> opDone operation)"
  shows "snd (snd (generateVeoVideo svc p cb sf d s)) \<noteq> Unfinished"
proof (cases "submitReply svc (requestPayloadOf p sf)")
  case (Inl e)
  then show ?thesis by (simp add: generateVeoVideo_outcome)
next
  case (Inr op0)
  from pollLoop_settles [OF assms, of "\<lambda>m u. u" 0 op0 "()"] Inr show ?thesis
    by (cases "snd (pollLoop (\<lambda>m u. u) (pollReplies svc) 0 op0 ())")
       (simp_all add: generateVeoVideo_outcome retrieveVideo_returns)
qed

text \<open>What the handler returns, in terms of the outcome of the job.\<close>

lemma handleCreateVeoVideo_result:
  assumes "truthy (veoPromptOf scene)" and "truthy (startFrame scene)"
  shows "\<exists>st2. handleCreateVeoVideo svc scene st =
           (case veoJobOutcome svc scene of
              Unfinished \<Rightarrow> (st2, [requestPayloadOf (or_else (veoPromptOf scene) [])
                                     (Some (startFrameDataOf scene))], Unfinished)
            | Returned videoUrl \<Rightarrow>
                (st2\<lparr>scenes := patchScene (scene_id scene) (setDone videoUrl) (scenes st2)\<rparr>,
                 [requestPayloadOf (or_else (veoPromptOf scene) []) (Some (startFrameDataOf scene))],
                 Returned ())
            | Threw e \<Rightarrow>
                (st2\<lparr>scenes := patchScene (scene_id scene) (setError e) (scenes st2)\<rparr>,
                 [requestPayloadOf (or_else (veoPromptOf scene) []) (Some (startFrameDataOf scene))],
                 Returned ()))"
proof -
  let ?st1 = "st\<lparr>scenes := patchScene (scene_id scene) setPending (scenes st)\<rparr>"
  let ?gen = "generateVeoVideo svc (or_else (veoPromptOf scene) []) (progressCallback (scene_id scene))
       (Some (startFrameDataOf scene)) (VideoScene.duration scene) ?st1"
  obtain st2 requests r where gen: "?gen = (st2, requests, r)"
    by (metis prod_cases3)
  have "fst (snd ?gen) = [requestPayloadOf (or_else (veoPromptOf scene) []) (Some (startFrameDataOf scene))]"
    by (rule generateVeoVideo_requests)
  with gen have req: "requests = [requestPayloadOf (or_else (veoPromptOf scene) []) (Some (startFrameDataOf scene))]"
    by simp
  have "veoJobOutcome svc scene = snd (snd ?gen)"
    unfolding veoJobOutcome_def by (rule generateVeoVideo_outcome_indep)
  with gen have out: "veoJobOutcome svc scene = r" by simp
  show ?thesis
    using assms gen req out
    by (cases r) (auto simp: handleCreateVeoVideo_def Let_def)
qed

lemma patched_scene:
  assumes "s \<in> set (patchScene k f xs)" and "scene_id s = k" and "\<And>x. scene_id (f x) = scene_id x"
  shows "\<exists>x\<in>set xs. s = f x"
  using assms by (auto simp: patchScene_def split: if_splits)

lemma ready_present:
  "truthy (veoPromptOf (readyScene i))" "truthy (startFrame (readyScene i))"
  by (simp_all add: readyScene_def completeScene_def veoPromptOf_def truthy_def
        generateAllModelPrompts_def generateVeoPrompt_def template_def)

lemma setPending_present:
  "truthy (veoPromptOf (setPending s)) = truthy (veoPromptOf s)"
  "truthy (startFrame (setPending s)) = truthy (startFrame s)"
  by (simp_all add: setPending_def veoPromptOf_def)

lemma demo_submit: "submitReply demoServices req = Inr pendingOperation"
  by (simp add: demoServices_def)

lemma demo_job_outcome: "veoJobOutcome demoServices (readyScene 0) = Returned ''blob:video-X''"
  by (simp add: veoJobOutcome_def generateVeoVideo_outcome demoServices_def pendingOperation_def
      doneOperation_def retrieveVideo_def truthy_def or_else_def Let_def)

lemma failing_job_outcome:
  "veoJobOutcome svcJobFails (readyScene 0)
     = Threw (JsError ''Video generation failed: quota exceeded'')"
  by (simp add: veoJobOutcome_def generateVeoVideo_outcome svcJobFails_def demoServices_def
      pendingOperation_def retrieveVideo_def Let_def)

lemma run_first_scene:
  "scenes (fst (handleCreateVeoVideo svc (readyScene 0) readyState)) ! 0
     \<in> set (scenes (fst (handleCreateVeoVideo svc (readyScene 0) readyState)))
   \<and> scene_id (scenes (fst (handleCreateVeoVideo svc (readyScene 0) readyState)) ! 0)
       = scene_id (readyScene 0)"
proof -
  have ids: "map scene_id (scenes (fst (handleCreateVeoVideo svc (readyScene 0) readyState)))
          = map scene_id (scenes readyState)"
    by (rule handleCreateVeoVideo_ids)
  then have len: "length (scenes (fst (handleCreateVeoVideo svc (readyScene 0) readyState))) = 2"
    using map_eq_imp_length_eq [OF ids] by (simp add: ready_scenes)
  from len have "map scene_id (scenes (fst (handleCreateVeoVideo svc (readyScene 0) readyState))) ! 0
          = scene_id (scenes (fst (handleCreateVeoVideo svc (readyScene 0) readyState)) ! 0)"
    by (intro nth_map) simp
  with ids have "scene_id (scenes (fst (handleCreateVeoVideo svc (readyScene 0) readyState)) ! 0)
          = scene_id (readyScene 0)"
    by (simp add: ready_scenes)
  with len show ?thesis by simp
qed


lemma handleCreateVeoVideo_returned:
  assumes "truthy (veoPromptOf scene)" and "truthy (startFrame scene)"
    and "veoJobOutcome svc scene = Returned videoUrl"
  shows "snd (snd (handleCreateVeoVideo svc scene st)) = Returned ()
       \<and> (\<forall>s\<in>set (scenes (fst (handleCreateVeoVideo svc scene st))).
             scene_id s = scene_id scene \<longrightarrow>
               videoGenerationStatus s = Done \<and> generatedVideoUrl s = Some videoUrl)"
proof -
  from handleCreateVeoVideo_result [OF assms(1,2), of svc st] assms(3) obtain st2 where
    res: "handleCreateVeoVideo svc scene st =
            (st2\<lparr>scenes := patchScene (scene_id scene) (setDone videoUrl) (scenes st2)\<rparr>,
             [requestPayloadOf (or_else (veoPromptOf scene) []) (Some (startFrameDataOf scene))],
             Returned ())"
    by auto
  have "videoGenerationStatus s = Done \<and> generatedVideoUrl s = Some videoUrl"
    if "s \<in> set (patchScene (scene_id scene) (setDone videoUrl) (scenes st2))"
      "scene_id s = scene_id scene" for s
  proof -
    from that have "\<exists>x\<in>set (scenes st2). s = setDone videoUrl x"
      by (intro patched_scene) simp_all
    then show ?thesis by (auto simp: setDone_def)
  qed
  with res show ?thesis by simp
qed


lemma pending_state_scenes: "scenes pendingState = [setPending (readyScene 0), readyScene 1]"
  by (simp add: pendingState_def)



text \<open>
  The loop has no timeout and no cancellation: while no poll answer is a rejection or a
  finished operation, the run does not return and the scene stays pending, showing the
  last rotating message.
\<close>

lemma ready_status: "videoGenerationStatus (readyScene i) = Idle"
  by (simp add: readyScene_def completeScene_def placeholderScene_def)

lemma unsettled_job_stays_pending:
  "snd (snd (handleCreateVeoVideo svcNeverDone (readyScene 0) readyState)) = Unfinished
   \<and> map videoGenerationStatus (scenes (fst (handleCreateVeoVideo svcNeverDone (readyScene 0) readyState)))
       = [Pending, Idle]
   \<and> videoGenerationProgress (scenes (fst (handleCreateVeoVideo svcNeverDone (readyScene 0) readyState)) ! 0)
       = Some ''Director is shouting 'Action!'...''"
  using ready_present [of 0] ready_ids_differ
  by (simp add: handleCreateVeoVideo_def generateVeoVideo_def svcNeverDone_def demoServices_def
      pendingOperation_def progressCallback_def patchScene_def setPending_def setProgress_def
      progressMessages_def ready_scenes ready_status Let_def)

text \<open>
  The hypothesis on the clock is needed: the reading is taken anew for every scene, and
  an identifier does not say where the reading ends and the index begins. With a clock
  that runs backwards from \<open>11\<close> to \<open>1\<close>, scene \<open>1\<close> and scene \<open>11\<close> get the same
  identifier.
\<close>

lemma backwards_clock_ids_clash: "show_nat 11 @ show_nat 1 = show_nat 1 @ show_nat 11"
  by (simp add: show_nat.simps digit_char_def)

section \<open>Failures of a video run\<close>

lemma pollLoop_pending_then_rejected:
  assumes "\<forall>operation\<in>set pendings. \<not> opDone operation" and "\<not> opDone operation0"
  shows "snd (pollLoop cb (map Inr pendings @ Inl e # rest) n operation0 s) = Threw e"
  using assms
proof (induction pendings arbitrary: n operation0 s)
  case Nil
  then show ?case by (simp add: Let_def)
next
  case (Cons p ps)
  have "snd (pollLoop cb (map Inr ps @ Inl e # rest) (Suc n) p
               (cb (progressMessages ! (n mod length progressMessages)) s)) = Threw e"
    using Cons.prems by (intro Cons.IH) simp_all
  with Cons.prems(2) show ?case by (simp add: Let_def)
qed

lemma outcome_submit_rejected:
  assumes "submitReply svc (requestPayloadOf (or_else (veoPromptOf scene) [])
             (Some (startFrameDataOf scene))) = Inl e"
  shows "veoJobOutcome svc scene = Threw e"
  using assms by (simp add: veoJobOutcome_def generateVeoVideo_outcome)

lemma outcome_poll_rejected:
  assumes "submitReply svc (requestPayloadOf (or_else (veoPromptOf scene) [])
             (Some (startFrameDataOf scene))) = Inr operation0"
    and "\<not> opDone operation0" and "\<forall>operation\<in>set pendings. \<not> opDone operation"
    and "pollReplies svc = map Inr pendings @ Inl e # rest"
  shows "veoJobOutcome svc scene = Threw e"
proof -
  have "snd (pollLoop (\<lambda>m u. u) (pollReplies svc) 0 operation0 ()) = Threw e"
    unfolding assms(4) using assms(3,2) by (rule pollLoop_pending_then_rejected)
  with assms(1) show ?thesis by (simp add: veoJobOutcome_def generateVeoVideo_outcome)
qed

lemma outcome_job_ends:
  assumes "submitReply svc (requestPayloadOf (or_else (veoPromptOf scene) [])
             (Some (startFrameDataOf scene))) = Inr operationD
           \<or> (submitReply svc (requestPayloadOf (or_else (veoPromptOf scene) [])
                 (Some (startFrameDataOf scene))) = Inr operation0
               \<and> \<not> opDone operation0 \<and> (\<forall>operation\<in>set pendings. \<not> opDone operation)
               \<and> pollReplies svc = map Inr pendings @ Inr operationD # rest)"
    and "opDone operationD"
  shows "veoJobOutcome svc scene = snd (retrieveVideo svc (\<lambda>m u. u) operationD ())"
  using assms(1)
proof
  assume "submitReply svc (requestPayloadOf (or_else (veoPromptOf scene) [])
             (Some (startFrameDataOf scene))) = Inr operationD"
  with assms(2) show ?thesis
    by (simp add: veoJobOutcome_def generateVeoVideo_outcome pollLoop_done)
next
  assume a: "submitReply svc (requestPayloadOf (or_else (veoPromptOf scene) [])
                 (Some (startFrameDataOf scene))) = Inr operation0
               \<and> \<not> opDone operation0 \<and> (\<forall>operation\<in>set pendings. \<not> opDone operation)
               \<and> pollReplies svc = map Inr pendings @ Inr operationD # rest"
  then have p: "\<forall>operation\<in>set pendings. \<not> opDone operation" and o: "\<not> opDone operation0"
    and r: "pollReplies svc = map Inr pendings @ Inr operationD # rest"
    by blast+
  have "snd (pollLoop (\<lambda>m u. u) (pollReplies svc) 0 operation0 ()) = Returned operationD"
    unfolding r pollLoop_pending_then_done [OF p assms(2) o] by (rule snd_conv)
  with a show ?thesis by (simp add: veoJobOutcome_def generateVeoVideo_outcome)
qed

lemma handleCreateVeoVideo_threw:
  assumes "truthy (veoPromptOf scene)" and "truthy (startFrame scene)"
    and "veoJobOutcome svc scene = Threw e"
  shows "leavesError e scene (handleCreateVeoVideo svc scene st)"
proof -
  from handleCreateVeoVideo_result [OF assms(1,2), of svc st] assms(3) obtain st2 where
    res: "handleCreateVeoVideo svc scene st =
            (st2\<lparr>scenes := patchScene (scene_id scene) (setError e) (scenes st2)\<rparr>,
             [requestPayloadOf (or_else (veoPromptOf scene) []) (Some (startFrameDataOf scene))],
             Returned ())"
    by auto
  have "videoGenerationStatus s = Error
        \<and> videoGenerationProgress s = Some (message_or e ''Unknown error'')"
    if "s \<in> set (patchScene (scene_id scene) (setError e) (scenes st2))"
      "scene_id s = scene_id scene" for s
  proof -
    from that have "\<exists>x\<in>set (scenes st2). s = setError e x"
      by (intro patched_scene) simp_all
    then show ?thesis by (auto simp: setError_def)
  qed
  with res show ?thesis by (simp add: leavesError_def)
qed

lemma handleCreateVeoVideo_done:
  assumes "truthy (veoPromptOf scene)" and "truthy (startFrame scene)"
    and "veoJobOutcome svc scene = Returned videoUrl"
  shows "leavesDone videoUrl scene (handleCreateVeoVideo svc scene st)"
  using handleCreateVeoVideo_returned [OF assms, of st] by (simp add: leavesDone_def)




lemma run_handler_triple:
  "handleCreateVeoVideo svc scene st
     = (fst (handleCreateVeoVideo svc scene st),
        fst (snd (handleCreateVeoVideo svc scene st)),
        snd (snd (handleCreateVeoVideo svc scene st)))"
  by simp

lemma leavesError_first:
  assumes "leavesError e (readyScene 0)
             (fst (handleCreateVeoVideo svc (readyScene 0) readyState),
              fst (snd (handleCreateVeoVideo svc (readyScene 0) readyState)),
              snd (snd (handleCreateVeoVideo svc (readyScene 0) readyState)))"
  shows "snd (snd (handleCreateVeoVideo svc (readyScene 0) readyState)) = Returned ()
       \<and> videoGenerationStatus (scenes (fst (handleCreateVeoVideo svc (readyScene 0) readyState)) ! 0) = Error
       \<and> videoGenerationProgress (scenes (fst (handleCreateVeoVideo svc (readyScene 0) readyState)) ! 0)
           = Some (message_or e ''Unknown error'')"
  using assms run_first_scene [of svc] by (simp add: leavesError_def)

lemma leavesDone_first:
  assumes "leavesDone u (readyScene 0)
             (fst (handleCreateVeoVideo svc (readyScene 0) readyState),
              fst (snd (handleCreateVeoVideo svc (readyScene 0) readyState)),
              snd (snd (handleCreateVeoVideo svc (readyScene 0) readyState)))"
  shows "snd (snd (handleCreateVeoVideo svc (readyScene 0) readyState)) = Returned ()
       \<and> videoGenerationStatus (scenes (fst (handleCreateVeoVideo svc (readyScene 0) readyState)) ! 0) = Done
       \<and> generatedVideoUrl (scenes (fst (handleCreateVeoVideo svc (readyScene 0) readyState)) ! 0)
           = Some u"
  using assms run_first_scene [of svc] by (simp add: leavesDone_def)

section \<open>The example storyboard after a failed run\<close>











section \<open>Claims\<close>

subsection \<open>C5: prompt composition is a function of the scene fields and the roster\<close>

text \<open>
  Claim C5. Prompt composition is deterministic and total: for every scene and roster the
  prompt map holds a text for each of the four backend identifiers, and the text is fixed
  by the five scene fields the templates read (description, narrative, duration,
  characters in scene, source page index) and the roster. Two computations on the same
  input, and even on scenes that differ in the recommendation fields only, give identical
  text. The function takes no service and has no error result.
\<close>

theorem prompts_deterministic:
  assumes "sceneDescription s1 = sceneDescription s2" and "narrative s1 = narrative s2"
    and "duration s1 = duration s2" and "charactersInScene s1 = charactersInScene s2"
    and "sourcePageIndex s1 = sourcePageIndex s2"
  shows "map_of (generateAllModelPrompts s1 roster) m = map_of (generateAllModelPrompts s2 roster) m
         \<and> map_of (generateAllModelPrompts s1 roster) m \<noteq> None"
  using assms
  by (cases m)
     (simp_all add: generateAllModelPrompts_def generateSeedancePrompt_def generateHailuoPrompt_def
        generateVeoPrompt_def generateKlingPrompt_def getCharacterAnchors_def)

theorem prompts_deterministic_witness:
  "map_of (generateAllModelPrompts (demoPanel veo ''audio'') demoRoster) kling
     = map_of (generateAllModelPrompts (demoPanel hailuo ''physics'') demoRoster) kling
   \<and> map_of (generateAllModelPrompts (demoPanel veo ''audio'') demoRoster) kling \<noteq> None"
  by (rule prompts_deterministic) (simp_all add: demoPanel_def enrichPanel_def)

subsection \<open>C10: scene identifiers are distinct, a patch by identifier changes one scene\<close>

text \<open>
  Claim C10. Within one storyboard build all scene identifiers are pairwise distinct, so
  a patch applied by identifier changes exactly the scene at that position and no other.
  The identifier of scene \<open>i\<close> is the decimal clock reading taken for that scene followed
  by the decimal index. The clock is read once per scene; the theorem asks that it does
  not run backwards during the build, which covers the case of one shared reading. The
  patch is any of the handlers' updates (\<open>f\<close> is arbitrary), applied to any later scene
  list that still carries the placeholders' identifiers.
\<close>

theorem scene_ids_distinct_patch_one:
  assumes clock: "\<forall>i j. i < j \<and> j < length initialSceneData \<longrightarrow> now svc i \<le> now svc j"
    and same_ids: "map scene_id current = map scene_id (placeholderScenes svc initialSceneData)"
    and k: "k < length current"
  shows "distinct (map scene_id (placeholderScenes svc initialSceneData))
         \<and> patchScene (scene_id (current ! k)) f current = current[k := f (current ! k)]"
proof -
  have d: "distinct (map scene_id (placeholderScenes svc initialSceneData))"
    using clock by (rule placeholder_ids_distinct)
  with same_ids have "distinct (map scene_id current)" by simp
  then have "patchScene (scene_id (current ! k)) f current = current[k := f (current ! k)]"
    using k by (rule patchScene_distinct_update)
  with d show ?thesis by simp
qed

theorem scene_ids_distinct_patch_one_witness:
  "distinct (map scene_id (placeholderScenes demoServices demoInitialScenes))
   \<and> patchScene (scene_id (placeholderScenes demoServices demoInitialScenes ! 1)) setPending
        (placeholderScenes demoServices demoInitialScenes)
      = (placeholderScenes demoServices demoInitialScenes)
          [1 := setPending (placeholderScenes demoServices demoInitialScenes ! 1)]"
  by (rule scene_ids_distinct_patch_one) (simp_all add: demoServices_def demoInitialScenes_def)

subsection \<open>C1: a frame failure ends the whole build\<close>

text \<open>
  Claim C1 says that a start-frame or end-frame failure for one scene is isolated to that
  scene while the build goes on and the scenes already processed stay populated. The
  handler does otherwise: the loop runs inside one \<^verbatim>\<open>try\<close> whose \<^verbatim>\<open>catch\<close> empties the
  scene list. In the example the end frame of the second of two scenes fails: the first
  scene had been published complete, and the state left behind has no scene at all.
\<close>

theorem frame_failure_not_isolated:
  "isLoading (scenes (handleGenerateStoryboard svcEndFrameFails demoRoster demoPages initialState ! 2) ! 0) = False
   \<and> endFrame (scenes (handleGenerateStoryboard svcEndFrameFails demoRoster demoPages initialState ! 2) ! 0)
       = Some ''data:image/png;base64,END''
   \<and> scenes (last (handleGenerateStoryboard svcEndFrameFails demoRoster demoPages initialState)) = []"
  by (simp add: handleGenerateStoryboard_def generateStoryboardFromPages_def svcEndFrameFails_def
      demoServices_def demoRawPanels_def demoPages_def rawPanel_def recommendVideoModel_def
      enrichPanel_def placeholderScenes_def placeholderScene_def frameStage_def pageAt_def
      generateVideoFrame_def generateWebtoonEndFrame_def imageOfParts_def imageParts_def
      patchScene_def completeScene_def buildFailed_def startBuild_def initialState_def
      show_nat.simps digit_char_def truthy_def Let_def)

text \<open>
  Claim C1, amended to what the handler does. If the frame stage of scene \<open>i\<close> is the first
  to fail, the build stops there: the scenes before \<open>i\<close> were published one by one, no
  later scene is processed (the handler published \<open>i + 3\<close> states in all), and the state
  left behind has an empty scene list, the generating flag cleared, and one more alert
  carrying the error message.
\<close>

theorem frame_failure_aborts_build:
  assumes pages: "pagesToImport \<noteq> []"
    and decomposed: "generateStoryboardFromPages svc pagesToImport characters = Inr initialSceneData"
    and i: "i < length initialSceneData"
    and fails: "frameStage svc pagesToImport characters i (initialSceneData ! i) = Inl e"
    and before: "\<forall>j<i. \<exists>r. frameStage svc pagesToImport characters j (initialSceneData ! j) = Inr r"
  shows "scenes (last (handleGenerateStoryboard svc characters pagesToImport st)) = []
       \<and> isGenerating (last (handleGenerateStoryboard svc characters pagesToImport st)) = False
       \<and> alerts (last (handleGenerateStoryboard svc characters pagesToImport st))
           = alerts st @ [''Storyboard Generation Failed: '' @ message_or e ''Unknown Error'']
       \<and> length (handleGenerateStoryboard svc characters pagesToImport st) = i + 3"
proof -
  let ?phs = "placeholderScenes svc initialSceneData"
  let ?st1 = "(startBuild pagesToImport st)\<lparr>scenes := ?phs\<rparr>"
  let ?zs = "zip initialSceneData ?phs"
  let ?fl = "frameLoop svc pagesToImport characters 0 ?zs ?st1"
  have iz: "i < length ?zs" using i by simp
  have fz: "fst (?zs ! j) = initialSceneData ! j" if "j < length initialSceneData" for j
    using that by simp
  have f1: "frameStage svc pagesToImport characters (0 + i) (fst (?zs ! i)) = Inl e"
    using fails i fz by simp
  have f2: "\<forall>j<i. \<exists>r. frameStage svc pagesToImport characters (0 + j) (fst (?zs ! j)) = Inr r"
    using before i fz by simp
  from frameLoop_fails_at [OF iz f1 f2, of ?st1]
  have thrown: "snd ?fl = Some e" and len: "length (fst ?fl) = i" by simp_all
  have tr: "handleGenerateStoryboard svc characters pagesToImport st
      = startBuild pagesToImport st # ?st1 # fst ?fl @ [buildFailed e (last (?st1 # fst ?fl))]"
    using build_trace [OF pages decomposed, of st] thrown by simp
  have "alerts (last (?st1 # fst ?fl)) = alerts st"
  proof -
    have "last (?st1 # fst ?fl) = ?st1\<lparr>scenes := scenes (last (?st1 # fst ?fl))\<rparr>"
      using frameLoop_last [of scene_id ?st1 svc pagesToImport characters 0 ?zs] by simp
    then have "alerts (last (?st1 # fst ?fl)) = alerts (?st1\<lparr>scenes := scenes (last (?st1 # fst ?fl))\<rparr>)"
      by simp
    then show ?thesis by simp
  qed
  with tr len show ?thesis by (simp add: buildFailed_def)
qed

theorem frame_failure_aborts_build_witness:
  "scenes (last (handleGenerateStoryboard svcEndFrameFails demoRoster demoPages initialState)) = []
   \<and> isGenerating (last (handleGenerateStoryboard svcEndFrameFails demoRoster demoPages initialState)) = False
   \<and> alerts (last (handleGenerateStoryboard svcEndFrameFails demoRoster demoPages initialState))
       = alerts initialState @ [''Storyboard Generation Failed: '' @ message_or (JsError ''quota exceeded'') ''Unknown Error'']
   \<and> length (handleGenerateStoryboard svcEndFrameFails demoRoster demoPages initialState) = 1 + 3"
proof (rule frame_failure_aborts_build [where initialSceneData = demoInitialScenes])
  show "demoPages \<noteq> []" by (simp add: demoPages_def)
  show "generateStoryboardFromPages svcEndFrameFails demoPages demoRoster = Inr demoInitialScenes"
    by (simp add: generateStoryboardFromPages_def svcEndFrameFails_def demoServices_def
        demoRawPanels_def recommendVideoModel_def demoInitialScenes_def)
  show "1 < length demoInitialScenes" by (simp add: demoInitialScenes_def)
  show "frameStage svcEndFrameFails demoPages demoRoster 1 (demoInitialScenes ! 1) = Inl (JsError ''quota exceeded'')"
    by (simp add: frameStage_def svcEndFrameFails_def demoServices_def demoInitialScenes_def
        enrichPanel_def rawPanel_def pageAt_def demoPages_def generateVideoFrame_def
        generateWebtoonEndFrame_def imageOfParts_def imageParts_def Let_def)
  show "\<forall>j<1. \<exists>r. frameStage svcEndFrameFails demoPages demoRoster j (demoInitialScenes ! j) = Inr r"
    by (simp add: frameStage_def svcEndFrameFails_def demoServices_def demoInitialScenes_def
        enrichPanel_def rawPanel_def pageAt_def demoPages_def generateVideoFrame_def
        generateWebtoonEndFrame_def imageOfParts_def imageParts_def Let_def)
qed

subsection \<open>C9: placeholders are published first, patches keep number and order\<close>

text \<open>
  Claim C9. When decomposition returns \<open>N\<close> initial scenes, the state published next holds
  exactly \<open>N\<close> placeholder scenes in decomposition order, each still loading and with
  video status idle. Every later update keeps the list of scene identifiers, hence the
  number and the order of the scenes: each frame and prompt patch of the build (all the
  states published before the handler's last one, and the last one too when every frame
  stage succeeds), a frame regeneration, and the status updates of a video run.
\<close>

theorem placeholders_published_order_kept:
  assumes pages: "pagesToImport \<noteq> []"
    and decomposed: "generateStoryboardFromPages svc pagesToImport characters = Inr initialSceneData"
  shows "scenes (handleGenerateStoryboard svc characters pagesToImport st ! 1)
           = placeholderScenes svc initialSceneData
       \<and> length (placeholderScenes svc initialSceneData) = length initialSceneData
       \<and> (\<forall>k<length initialSceneData.
             VideoScene.description (placeholderScenes svc initialSceneData ! k)
               = sceneDescription (initialSceneData ! k)
             \<and> isLoading (placeholderScenes svc initialSceneData ! k)
             \<and> videoGenerationStatus (placeholderScenes svc initialSceneData ! k) = Idle)
       \<and> (\<forall>j. 1 \<le> j \<and> Suc j < length (handleGenerateStoryboard svc characters pagesToImport st)
             \<longrightarrow> map scene_id (scenes (handleGenerateStoryboard svc characters pagesToImport st ! j))
                   = map scene_id (placeholderScenes svc initialSceneData))
       \<and> ((\<forall>j<length initialSceneData.
              \<exists>r. frameStage svc pagesToImport characters j (initialSceneData ! j) = Inr r)
            \<longrightarrow> map scene_id (scenes (last (handleGenerateStoryboard svc characters pagesToImport st)))
                   = map scene_id (placeholderScenes svc initialSceneData))
       \<and> map scene_id (scenes (handleRegenerateFrame svc2 sceneId frameType editPrompt st2))
           = map scene_id (scenes st2)
       \<and> map scene_id (scenes (fst (handleCreateVeoVideo svc2 scene st2)))
           = map scene_id (scenes st2)"
proof -
  have a: "scenes (handleGenerateStoryboard svc characters pagesToImport st ! 1)
             = placeholderScenes svc initialSceneData"
    using build_trace [OF pages decomposed, of st] by simp
  have b: "\<forall>k<length initialSceneData.
             VideoScene.description (placeholderScenes svc initialSceneData ! k)
               = sceneDescription (initialSceneData ! k)
             \<and> isLoading (placeholderScenes svc initialSceneData ! k)
             \<and> videoGenerationStatus (placeholderScenes svc initialSceneData ! k) = Idle"
    by (simp add: nth_placeholderScenes)
  have c: "\<forall>j. 1 \<le> j \<and> Suc j < length (handleGenerateStoryboard svc characters pagesToImport st)
             \<longrightarrow> map scene_id (scenes (handleGenerateStoryboard svc characters pagesToImport st ! j))
                   = map scene_id (placeholderScenes svc initialSceneData)"
    using build_middle_states [OF pages decomposed, of scene_id] by simp
  have d: "(\<forall>j<length initialSceneData.
              \<exists>r. frameStage svc pagesToImport characters j (initialSceneData ! j) = Inr r)
            \<longrightarrow> map scene_id (scenes (last (handleGenerateStoryboard svc characters pagesToImport st)))
                   = map scene_id (placeholderScenes svc initialSceneData)"
    using build_last_state_ok [OF pages decomposed, of scene_id] by simp
  from a b c d show ?thesis
    by (simp add: handleRegenerateFrame_ids handleCreateVeoVideo_ids)
qed

theorem placeholders_published_order_kept_witness:
  "scenes (handleGenerateStoryboard demoServices demoRoster demoPages initialState ! 1)
     = placeholderScenes demoServices demoInitialScenes
   \<and> length (placeholderScenes demoServices demoInitialScenes) = length demoInitialScenes
   \<and> VideoScene.description (placeholderScenes demoServices demoInitialScenes ! 1)
       = sceneDescription (demoInitialScenes ! 1)
   \<and> isLoading (placeholderScenes demoServices demoInitialScenes ! 1)
   \<and> videoGenerationStatus (placeholderScenes demoServices demoInitialScenes ! 1) = Idle
   \<and> map scene_id (scenes (handleGenerateStoryboard demoServices demoRoster demoPages initialState ! 2))
       = map scene_id (placeholderScenes demoServices demoInitialScenes)
   \<and> map scene_id (scenes (last (handleGenerateStoryboard demoServices demoRoster demoPages initialState)))
       = map scene_id (placeholderScenes demoServices demoInitialScenes)
   \<and> map scene_id (scenes (handleRegenerateFrame demoServices ''17300000000000'' StartFrame []
          (last (handleGenerateStoryboard demoServices demoRoster demoPages initialState))))
       = map scene_id (scenes (last (handleGenerateStoryboard demoServices demoRoster demoPages initialState)))
   \<and> map scene_id (scenes (fst (handleCreateVeoVideo demoServices
          (placeholderScenes demoServices demoInitialScenes ! 0)
          (last (handleGenerateStoryboard demoServices demoRoster demoPages initialState)))))
       = map scene_id (scenes (last (handleGenerateStoryboard demoServices demoRoster demoPages initialState)))"
proof -
  note T = placeholders_published_order_kept [OF demo_pages demo_decomposed,
      where st = initialState and ?svc2.0 = demoServices and sceneId = "''17300000000000''"
        and frameType = StartFrame and editPrompt = "[]"
        and ?st2.0 = "last (handleGenerateStoryboard demoServices demoRoster demoPages initialState)"
        and scene = "placeholderScenes demoServices demoInitialScenes ! 0"]
  have k: "1 < length demoInitialScenes" by (simp add: demo_length)
  have j: "1 \<le> (2::nat) \<and> Suc 2 < length (handleGenerateStoryboard demoServices demoRoster demoPages initialState)"
    by (simp add: demo_trace_length)
  from T k j demo_frames_ok show ?thesis by blast
qed

subsection \<open>C2: stored durations are capped at ten, page indices are stored as reported\<close>

text \<open>
  Claim C2 says that every scene stored after decomposition has a source page index inside
  the page list and an integer duration between \<open>1\<close> and \<open>10\<close>. Ingestion only rounds and
  caps: there is no lower bound and no check of the page index. A reported duration of
  \<open>0.4\<close> seconds is stored as \<open>0\<close> and stays so in the finished storyboard; a reported page
  index \<open>7\<close> for two pages is stored in the placeholder that is published.
\<close>

theorem stored_scene_bounds_counterexample:
  "VideoScene.duration
     (scenes (last (handleGenerateStoryboard svcShortScene demoRoster demoPages initialState)) ! 0) = 0
   \<and> VideoScene.sourcePageIndex
       (scenes (handleGenerateStoryboard svcBadPage demoRoster demoPages initialState ! 1) ! 0) = 7
   \<and> length demoPages = 2"
  by (simp add: handleGenerateStoryboard_def generateStoryboardFromPages_def svcShortScene_def
      svcBadPage_def demoServices_def demoPages_def rawPanel_def recommendVideoModel_def
      enrichPanel_def placeholderScenes_def placeholderScene_def frameStage_def pageAt_def
      generateVideoFrame_def generateWebtoonEndFrame_def imageOfParts_def imageParts_def
      patchScene_def completeScene_def buildFailed_def buildSucceeded_def startBuild_def
      initialState_def show_nat.simps digit_char_def truthy_def Let_def
      clampDuration_def round_def floor_eq_iff)

text \<open>
  Claim C2, amended to what ingestion does. In every state the build publishes from the
  placeholders on, scene \<open>k\<close> has the duration reported for panel \<open>k\<close> rounded to the
  nearest integer (halves upwards) and capped at \<open>10\<close>: an integer, at most \<open>10\<close>, and at
  least \<open>1\<close> when the report was at least half a second. Its source page index is the
  reported one, unchecked. In the state the build leaves behind, every scene's page index
  lies inside the page list, because an index outside makes the frame stage throw and the
  build empties the list.
\<close>

theorem stored_scene_duration_and_page:
  assumes pages: "pagesToImport \<noteq> []"
    and reply: "decomposeReply svc pagesToImport characters = Inr (Some panels)"
    and j: "1 \<le> j" "j < length (handleGenerateStoryboard svc characters pagesToImport st)"
    and k: "k < length (scenes (handleGenerateStoryboard svc characters pagesToImport st ! j))"
  shows "k < length panels
       \<and> VideoScene.duration (scenes (handleGenerateStoryboard svc characters pagesToImport st ! j) ! k)
           = min (round (duration (panels ! k))) 10
       \<and> VideoScene.duration (scenes (handleGenerateStoryboard svc characters pagesToImport st ! j) ! k) \<le> 10
       \<and> (1 / 2 \<le> duration (panels ! k) \<longrightarrow>
            1 \<le> VideoScene.duration (scenes (handleGenerateStoryboard svc characters pagesToImport st ! j) ! k))
       \<and> VideoScene.sourcePageIndex (scenes (handleGenerateStoryboard svc characters pagesToImport st ! j) ! k)
           = sourcePageIndex (panels ! k)
       \<and> (Suc j = length (handleGenerateStoryboard svc characters pagesToImport st) \<longrightarrow>
            0 \<le> sourcePageIndex (panels ! k)
            \<and> sourcePageIndex (panels ! k) < int (length pagesToImport))"
proof (cases "enrichedPanels svc 0 panels")
  case (Inl e)
  with reply have "generateStoryboardFromPages svc pagesToImport characters = Inl storyboardFailure"
    by (simp add: generateStoryboardFromPages_def)
  from build_failed_decomposition [OF pages this, of st] j
  have "scenes (handleGenerateStoryboard svc characters pagesToImport st ! j) = []"
    by (cases j) (simp_all add: buildFailed_def)
  with k show ?thesis by simp
next
  case (Inr ds)
  let ?tr = "handleGenerateStoryboard svc characters pagesToImport st"
  let ?phs = "placeholderScenes svc ds"
  from Inr reply have decomposed: "generateStoryboardFromPages svc pagesToImport characters = Inr ds"
    by (simp add: generateStoryboardFromPages_def)
  from enrichedPanels_ok [OF Inr] have len: "length ds = length panels" by simp
  from enrichedPanels_ok [OF Inr]
  have each: "\<forall>k<length panels. \<exists>m r. ds ! k = enrichPanel (panels ! k) m r"
    by blast
  from k have nonempty: "scenes (?tr ! j) \<noteq> []" by auto
  have dur: "map VideoScene.duration (scenes (?tr ! j)) = map VideoScene.duration ?phs"
    and fin: "Suc j = length ?tr \<longrightarrow>
               (\<forall>k<length ds. \<exists>r. frameStage svc pagesToImport characters k (ds ! k) = Inr r)"
    using build_states_from_placeholders [OF pages decomposed _ j nonempty, of VideoScene.duration]
    by simp_all
  have spi: "map VideoScene.sourcePageIndex (scenes (?tr ! j)) = map VideoScene.sourcePageIndex ?phs"
    using build_states_from_placeholders [OF pages decomposed _ j nonempty, of VideoScene.sourcePageIndex]
    by simp
  from dur have "length (scenes (?tr ! j)) = length ?phs" by (rule map_eq_imp_length_eq)
  with k len have kp: "k < length panels" and kd: "k < length ds" by simp_all
  from each kp obtain m r where dk: "ds ! k = enrichPanel (panels ! k) m r" by blast
  have "VideoScene.duration (scenes (?tr ! j) ! k) = map VideoScene.duration (scenes (?tr ! j)) ! k"
    using k by simp
  also have "\<dots> = VideoScene.duration (?phs ! k)" using dur kd by simp
  also have "\<dots> = clampDuration (duration (panels ! k))"
    using kd dk by (simp add: nth_placeholderScenes)
  finally have d: "VideoScene.duration (scenes (?tr ! j) ! k) = clampDuration (duration (panels ! k))" .
  have "VideoScene.sourcePageIndex (scenes (?tr ! j) ! k)
          = map VideoScene.sourcePageIndex (scenes (?tr ! j)) ! k"
    using k by simp
  also have "\<dots> = VideoScene.sourcePageIndex (?phs ! k)" using spi kd by simp
  also have "\<dots> = sourcePageIndex (panels ! k)"
    using kd dk by (simp add: nth_placeholderScenes)
  finally have p: "VideoScene.sourcePageIndex (scenes (?tr ! j) ! k) = sourcePageIndex (panels ! k)" .
  have r: "0 \<le> sourcePageIndex (panels ! k) \<and> sourcePageIndex (panels ! k) < int (length pagesToImport)"
    if "Suc j = length ?tr"
  proof -
    from fin that kd obtain res where "frameStage svc pagesToImport characters k (ds ! k) = Inr res"
      by blast
    from frameStage_page_in_range [OF this] dk show ?thesis by simp
  qed
  from kp d p r show ?thesis
    using clampDuration_le [of "duration (panels ! k)"] clampDuration_ge [of "duration (panels ! k)"]
    by (simp add: clampDuration_def)
qed

theorem stored_scene_duration_and_page_witness:
  "1 < length demoRawPanels
   \<and> VideoScene.duration (scenes (handleGenerateStoryboard demoServices demoRoster demoPages initialState ! 4) ! 1)
       = min (round (duration (demoRawPanels ! 1))) 10
   \<and> VideoScene.duration (scenes (handleGenerateStoryboard demoServices demoRoster demoPages initialState ! 4) ! 1) \<le> 10
   \<and> 1 \<le> VideoScene.duration (scenes (handleGenerateStoryboard demoServices demoRoster demoPages initialState ! 4) ! 1)
   \<and> VideoScene.sourcePageIndex (scenes (handleGenerateStoryboard demoServices demoRoster demoPages initialState ! 4) ! 1)
       = sourcePageIndex (demoRawPanels ! 1)
   \<and> 0 \<le> sourcePageIndex (demoRawPanels ! 1)
   \<and> sourcePageIndex (demoRawPanels ! 1) < int (length demoPages)"
proof -
  have j: "1 \<le> (4::nat)" "4 < length (handleGenerateStoryboard demoServices demoRoster demoPages initialState)"
    by (simp_all add: demo_trace_length)
  have k: "1 < length (scenes (handleGenerateStoryboard demoServices demoRoster demoPages initialState ! 4))"
    by (simp add: demo_last_scenes)
  have half: "1 / 2 \<le> duration (demoRawPanels ! 1)"
    by (simp add: demoRawPanels_def rawPanel_def)
  have fin: "Suc 4 = length (handleGenerateStoryboard demoServices demoRoster demoPages initialState)"
    by (simp add: demo_trace_length)
  from stored_scene_duration_and_page [OF demo_pages demo_reply j k] half fin
  show ?thesis by blast
qed

subsection \<open>C7: only an unparsable recommendation falls back to the default model\<close>

text \<open>
  Claim C7 says that a failing recommendation call never aborts: the default model is
  substituted and the storyboard goes on. That holds for a response that does not parse,
  not for a request that is rejected: the request is awaited outside the \<^verbatim>\<open>try\<close>, its
  rejection reaches the \<^verbatim>\<open>catch\<close> of the decomposition (\<open>Failed to parse webtoon storyboard
  or get recommendations\<close>), which throws, and the build ends with no scene. In the example
  the recommendation for the second panel is rejected.
\<close>

theorem recommendation_rejection_is_fatal:
  "generateStoryboardFromPages svcRecommendRejects demoPages demoRoster = Inl storyboardFailure
   \<and> scenes (last (handleGenerateStoryboard svcRecommendRejects demoRoster demoPages initialState)) = []
   \<and> alerts (last (handleGenerateStoryboard svcRecommendRejects demoRoster demoPages initialState))
       = [''Storyboard Generation Failed: Failed to get a valid storyboard from AI.'']"
  by (simp add: handleGenerateStoryboard_def generateStoryboardFromPages_def svcRecommendRejects_def
      demoServices_def demoRawPanels_def demoPages_def recommendVideoModel_def storyboardFailure_def
      buildFailed_def startBuild_def initialState_def message_or_def Let_def)

text \<open>
  Claim C7, amended to what the code does. A recommendation response that does not parse
  is replaced by the model \<open>seedance\<close> with the reasoning \<open>Default recommendation due to an
  error.\<close>; when no recommendation request is rejected the decomposition succeeds with one
  initial scene per panel, the unparsable ones carrying that default. When a
  recommendation request is rejected, the decomposition fails as a whole and the build
  leaves an empty scene list.
\<close>

theorem recommendation_fallback:
  assumes reply: "decomposeReply svc pagesToImport characters = Inr (Some panels)"
  shows "(recommendReply svc k d n = Inr None \<longrightarrow>
            recommendVideoModel svc k d n = Inr (seedance, ''Default recommendation due to an error.''))
       \<and> ((\<forall>k<length panels. \<forall>e.
              recommendReply svc k (sceneDescription (panels ! k)) (narrative (panels ! k)) \<noteq> Inl e)
           \<longrightarrow> (\<exists>ds. generateStoryboardFromPages svc pagesToImport characters = Inr ds
                   \<and> length ds = length panels
                   \<and> (\<forall>k<length panels.
                        recommendReply svc k (sceneDescription (panels ! k)) (narrative (panels ! k))
                          = Inr None
                        \<longrightarrow> recommendedModel (ds ! k) = seedance
                            \<and> reasoning (ds ! k) = ''Default recommendation due to an error.'')))
       \<and> ((\<exists>k<length panels. \<exists>e.
              recommendReply svc k (sceneDescription (panels ! k)) (narrative (panels ! k)) = Inl e)
           \<longrightarrow> generateStoryboardFromPages svc pagesToImport characters = Inl storyboardFailure
               \<and> (pagesToImport \<noteq> [] \<longrightarrow>
                    scenes (last (handleGenerateStoryboard svc characters pagesToImport st)) = []))"
proof (intro conjI impI)
  assume "recommendReply svc k d n = Inr None"
  then show "recommendVideoModel svc k d n = Inr (seedance, ''Default recommendation due to an error.'')"
    by (rule recommendVideoModel_unparsable)
next
  assume none: "\<forall>k<length panels. \<forall>e.
      recommendReply svc k (sceneDescription (panels ! k)) (narrative (panels ! k)) \<noteq> Inl e"
  have "\<not> (\<exists>k<length panels. \<exists>e.
      recommendVideoModel svc (0 + k) (sceneDescription (panels ! k)) (narrative (panels ! k)) = Inl e)"
    using none recommendVideoModel_rejects by fastforce
  then have "\<not> (\<exists>e. enrichedPanels svc 0 panels = Inl e)"
    using enrichedPanels_fails [of svc 0 panels] by blast
  then obtain ds where ds: "enrichedPanels svc 0 panels = Inr ds"
    by (cases "enrichedPanels svc 0 panels") auto
  with reply have g: "generateStoryboardFromPages svc pagesToImport characters = Inr ds"
    by (simp add: generateStoryboardFromPages_def)
  from enrichedPanels_ok [OF ds] have len: "length ds = length panels" by simp
  have "recommendedModel (ds ! k) = seedance
        \<and> reasoning (ds ! k) = ''Default recommendation due to an error.''"
    if k: "k < length panels"
      and u: "recommendReply svc k (sceneDescription (panels ! k)) (narrative (panels ! k)) = Inr None"
    for k
  proof -
    from enrichedPanels_ok [OF ds] k obtain m r where
      mr: "recommendVideoModel svc (0 + k) (sceneDescription (panels ! k)) (narrative (panels ! k))
             = Inr (m, r)"
      and dk: "ds ! k = enrichPanel (panels ! k) m r"
      by blast
    from recommendVideoModel_unparsable [OF u] mr
    have "m = seedance" "r = ''Default recommendation due to an error.''" by simp_all
    with dk show ?thesis by simp
  qed
  with g len show "\<exists>ds. generateStoryboardFromPages svc pagesToImport characters = Inr ds
                   \<and> length ds = length panels
                   \<and> (\<forall>k<length panels.
                        recommendReply svc k (sceneDescription (panels ! k)) (narrative (panels ! k))
                          = Inr None
                        \<longrightarrow> recommendedModel (ds ! k) = seedance
                            \<and> reasoning (ds ! k) = ''Default recommendation due to an error.'')"
    by blast
next
  assume rej: "\<exists>k<length panels. \<exists>e.
      recommendReply svc k (sceneDescription (panels ! k)) (narrative (panels ! k)) = Inl e"
  then have "\<exists>k<length panels. \<exists>e.
      recommendVideoModel svc (0 + k) (sceneDescription (panels ! k)) (narrative (panels ! k)) = Inl e"
    using recommendVideoModel_rejects by fastforce
  then have "\<exists>e. enrichedPanels svc 0 panels = Inl e"
    using enrichedPanels_fails [of svc 0 panels] by blast
  with reply show f: "generateStoryboardFromPages svc pagesToImport characters = Inl storyboardFailure"
    by (auto simp: generateStoryboardFromPages_def)
  assume "pagesToImport \<noteq> []"
  from build_failed_decomposition [OF this f, of st]
  show "scenes (last (handleGenerateStoryboard svc characters pagesToImport st)) = []"
    by (simp add: buildFailed_def)
qed

theorem recommendation_fallback_witness:
  "recommendVideoModel svcRecommendUnparsable 1 ''Joon ducks'' ''She releases the arrow''
     = Inr (seedance, ''Default recommendation due to an error.'')
   \<and> (\<exists>ds. generateStoryboardFromPages svcRecommendUnparsable demoPages demoRoster = Inr ds
         \<and> length ds = length demoRawPanels
         \<and> recommendedModel (ds ! 1) = seedance
         \<and> reasoning (ds ! 1) = ''Default recommendation due to an error.'')
   \<and> generateStoryboardFromPages svcRecommendRejects demoPages demoRoster = Inl storyboardFailure
   \<and> scenes (last (handleGenerateStoryboard svcRecommendRejects demoRoster demoPages initialState)) = []"
proof -
  have r1: "decomposeReply svcRecommendUnparsable demoPages demoRoster = Inr (Some demoRawPanels)"
    by (simp add: svcRecommendUnparsable_def demoServices_def)
  have r2: "decomposeReply svcRecommendRejects demoPages demoRoster = Inr (Some demoRawPanels)"
    by (simp add: svcRecommendRejects_def demoServices_def)
  have len: "length demoRawPanels = Suc (Suc 0)" by (simp add: demoRawPanels_def)
  have u: "recommendReply svcRecommendUnparsable 1 ''Joon ducks'' ''She releases the arrow'' = Inr None"
    by (simp add: svcRecommendUnparsable_def demoServices_def)
  have u': "recommendReply svcRecommendUnparsable 1 (sceneDescription (demoRawPanels ! 1))
              (narrative (demoRawPanels ! 1)) = Inr None"
    by (simp add: svcRecommendUnparsable_def demoServices_def)
  have none: "\<forall>k<length demoRawPanels. \<forall>e.
      recommendReply svcRecommendUnparsable k (sceneDescription (demoRawPanels ! k))
        (narrative (demoRawPanels ! k)) \<noteq> Inl e"
    by (simp add: svcRecommendUnparsable_def demoServices_def)
  have rej: "\<exists>k<length demoRawPanels. \<exists>e.
      recommendReply svcRecommendRejects k (sceneDescription (demoRawPanels ! k))
        (narrative (demoRawPanels ! k)) = Inl e"
    unfolding len by (intro exI [of _ 1]) (simp add: svcRecommendRejects_def demoServices_def)
  have k1: "1 < length demoRawPanels" by (simp add: len)
  note A = recommendation_fallback [OF r1, where k = 1 and d = "''Joon ducks''"
      and n = "''She releases the arrow''" and st = initialState]
  note B = recommendation_fallback [OF r2, where k = 1 and d = "''Joon ducks''"
      and n = "''She releases the arrow''" and st = initialState]
  from A u have a1: "recommendVideoModel svcRecommendUnparsable 1 ''Joon ducks'' ''She releases the arrow''
     = Inr (seedance, ''Default recommendation due to an error.'')" by blast
  from A none obtain ds where
    ds: "generateStoryboardFromPages svcRecommendUnparsable demoPages demoRoster = Inr ds"
      "length ds = length demoRawPanels"
      "\<forall>k<length demoRawPanels.
          recommendReply svcRecommendUnparsable k (sceneDescription (demoRawPanels ! k))
            (narrative (demoRawPanels ! k)) = Inr None
          \<longrightarrow> recommendedModel (ds ! k) = seedance
              \<and> reasoning (ds ! k) = ''Default recommendation due to an error.''"
    by blast
  from ds(3) k1 u' have a2: "recommendedModel (ds ! 1) = seedance
      \<and> reasoning (ds ! 1) = ''Default recommendation due to an error.''" by blast
  from B rej demo_pages have b: "generateStoryboardFromPages svcRecommendRejects demoPages demoRoster = Inl storyboardFailure
   \<and> scenes (last (handleGenerateStoryboard svcRecommendRejects demoRoster demoPages initialState)) = []"
    by blast
  from a1 ds(1,2) a2 b show ?thesis by blast
qed

subsection \<open>C6: regenerating a frame changes that frame only\<close>

text \<open>
  Claim C6. Regenerating one frame of a scene changes only that frame. After
  \<^verbatim>\<open>handleRegenerateFrame\<close> the scene list has the same length; a scene with another
  identifier is unchanged; a scene with the requested identifier is unchanged but for the
  requested frame (putting the old start frame back gives the old scene, so the end frame,
  the prompts and every other field are as before; likewise for the end frame). When the
  regeneration succeeds the list is the old one with the new frame patched in; when it
  fails the list is the old one, and the failure is shown in an alert.
\<close>

theorem regenerate_changes_one_frame:
  "length (scenes (handleRegenerateFrame svc sceneId frameType editPrompt st)) = length (scenes st)
   \<and> (\<forall>k<length (scenes st).
         (scene_id (scenes st ! k) \<noteq> sceneId \<longrightarrow>
            scenes (handleRegenerateFrame svc sceneId frameType editPrompt st) ! k = scenes st ! k)
       \<and> (frameType = StartFrame \<longrightarrow>
            (scenes (handleRegenerateFrame svc sceneId frameType editPrompt st) ! k)
               \<lparr>startFrame := startFrame (scenes st ! k)\<rparr> = scenes st ! k
            \<and> endFrame (scenes (handleRegenerateFrame svc sceneId frameType editPrompt st) ! k)
                = endFrame (scenes st ! k)
            \<and> prompts (scenes (handleRegenerateFrame svc sceneId frameType editPrompt st) ! k)
                = prompts (scenes st ! k))
       \<and> (frameType = EndFrame \<longrightarrow>
            (scenes (handleRegenerateFrame svc sceneId frameType editPrompt st) ! k)
               \<lparr>endFrame := endFrame (scenes st ! k)\<rparr> = scenes st ! k
            \<and> startFrame (scenes (handleRegenerateFrame svc sceneId frameType editPrompt st) ! k)
                = startFrame (scenes st ! k)
            \<and> prompts (scenes (handleRegenerateFrame svc sceneId frameType editPrompt st) ! k)
                = prompts (scenes st ! k)))
   \<and> (\<forall>sceneToRegen originalFrame.
         find (\<lambda>s. scene_id s = sceneId) (scenes st) = Some sceneToRegen
         \<and> frameOf frameType sceneToRegen = Some originalFrame \<and> originalFrame \<noteq> []
         \<longrightarrow> (\<forall>newFrame.
                regenerateVideoFrame svc originalFrame editPrompt (VideoScene.description sceneToRegen)
                  = Inr newFrame
                \<longrightarrow> scenes (handleRegenerateFrame svc sceneId frameType editPrompt st)
                      = patchScene sceneId (setFrame frameType newFrame) (scenes st))
           \<and> (\<forall>e.
                regenerateVideoFrame svc originalFrame editPrompt (VideoScene.description sceneToRegen)
                  = Inl e
                \<longrightarrow> scenes (handleRegenerateFrame svc sceneId frameType editPrompt st) = scenes st
                    \<and> alerts (handleRegenerateFrame svc sceneId frameType editPrompt st)
                        = alerts st @ [''Frame regeneration failed: '' @ message_or e ''Unknown Error'']))"
proof (intro conjI allI impI)
  show "length (scenes (handleRegenerateFrame svc sceneId frameType editPrompt st)) = length (scenes st)"
    using handleRegenerateFrame_ids [of svc sceneId frameType editPrompt st]
    by (rule map_eq_imp_length_eq)
next
  fix k assume k: "k < length (scenes st)"
  note cases = handleRegenerateFrame_scenes [of svc sceneId frameType editPrompt st]
  {
    assume "scene_id (scenes st ! k) \<noteq> sceneId"
    with cases k
    show "scenes (handleRegenerateFrame svc sceneId frameType editPrompt st) ! k = scenes st ! k"
      by (auto simp: nth_patchScene)
  }
  {
    assume ft: "frameType = StartFrame"
    from cases k ft
    show "(scenes (handleRegenerateFrame svc sceneId frameType editPrompt st) ! k)
               \<lparr>startFrame := startFrame (scenes st ! k)\<rparr> = scenes st ! k"
      by (auto simp: nth_patchScene setFrame_def)
    from cases k ft
    show "endFrame (scenes (handleRegenerateFrame svc sceneId frameType editPrompt st) ! k)
                = endFrame (scenes st ! k)"
      by (auto simp: nth_patchScene setFrame_def)
    from cases k ft
    show "prompts (scenes (handleRegenerateFrame svc sceneId frameType editPrompt st) ! k)
                = prompts (scenes st ! k)"
      by (auto simp: nth_patchScene setFrame_def)
  }
  {
    assume ft: "frameType = EndFrame"
    from cases k ft
    show "(scenes (handleRegenerateFrame svc sceneId frameType editPrompt st) ! k)
               \<lparr>endFrame := endFrame (scenes st ! k)\<rparr> = scenes st ! k"
      by (auto simp: nth_patchScene setFrame_def)
    from cases k ft
    show "startFrame (scenes (handleRegenerateFrame svc sceneId frameType editPrompt st) ! k)
                = startFrame (scenes st ! k)"
      by (auto simp: nth_patchScene setFrame_def)
    from cases k ft
    show "prompts (scenes (handleRegenerateFrame svc sceneId frameType editPrompt st) ! k)
                = prompts (scenes st ! k)"
      by (auto simp: nth_patchScene setFrame_def)
  }
next
  fix sceneToRegen originalFrame newFrame
  assume "find (\<lambda>s. scene_id s = sceneId) (scenes st) = Some sceneToRegen
         \<and> frameOf frameType sceneToRegen = Some originalFrame \<and> originalFrame \<noteq> []"
    and "regenerateVideoFrame svc originalFrame editPrompt (VideoScene.description sceneToRegen)
                  = Inr newFrame"
  then show "scenes (handleRegenerateFrame svc sceneId frameType editPrompt st)
                      = patchScene sceneId (setFrame frameType newFrame) (scenes st)"
    by (simp add: handleRegenerateFrame_def)
next
  fix sceneToRegen originalFrame e
  assume a: "find (\<lambda>s. scene_id s = sceneId) (scenes st) = Some sceneToRegen
         \<and> frameOf frameType sceneToRegen = Some originalFrame \<and> originalFrame \<noteq> []"
    and b: "regenerateVideoFrame svc originalFrame editPrompt (VideoScene.description sceneToRegen)
                  = Inl e"
  from a b show "scenes (handleRegenerateFrame svc sceneId frameType editPrompt st) = scenes st"
    by (simp add: handleRegenerateFrame_def)
  from a b show "alerts (handleRegenerateFrame svc sceneId frameType editPrompt st)
                        = alerts st @ [''Frame regeneration failed: '' @ message_or e ''Unknown Error'']"
    by (simp add: handleRegenerateFrame_def)
qed

theorem regenerate_changes_one_frame_witness:
  "length (scenes (handleRegenerateFrame demoServices (scene_id (readyScene 0)) StartFrame
             ''make her smile'' readyState)) = length (scenes readyState)
   \<and> scenes (handleRegenerateFrame demoServices (scene_id (readyScene 0)) StartFrame
               ''make her smile'' readyState) ! 1 = scenes readyState ! 1
   \<and> (scenes (handleRegenerateFrame demoServices (scene_id (readyScene 0)) StartFrame
                ''make her smile'' readyState) ! 0)
        \<lparr>startFrame := startFrame (scenes readyState ! 0)\<rparr> = scenes readyState ! 0
   \<and> endFrame (scenes (handleRegenerateFrame demoServices (scene_id (readyScene 0)) StartFrame
                ''make her smile'' readyState) ! 0) = endFrame (scenes readyState ! 0)
   \<and> scenes (handleRegenerateFrame demoServices (scene_id (readyScene 0)) StartFrame
               ''make her smile'' readyState)
       = patchScene (scene_id (readyScene 0))
           (setFrame StartFrame ''data:image/png;base64,REGEN'') (scenes readyState)
   \<and> scenes (handleRegenerateFrame svcRegenerationRefused (scene_id (readyScene 0)) EndFrame
               [] readyState) = scenes readyState"
proof -
  have k0: "0 < length (scenes readyState)" and k1: "1 < length (scenes readyState)"
    by (simp_all add: ready_scenes)
  have other: "scene_id (scenes readyState ! 1) \<noteq> scene_id (readyScene 0)"
    using ready_ids_differ by (simp add: ready_scenes)
  have found: "find (\<lambda>s. scene_id s = scene_id (readyScene 0)) (scenes readyState)
                 = Some (readyScene 0)"
    by (simp add: ready_scenes)
  have sf: "frameOf StartFrame (readyScene 0) = Some ''data:image/png;base64,START''
            \<and> ''data:image/png;base64,START'' \<noteq> []"
    by (simp add: frameOf_def ready_frames)
  have ef: "frameOf EndFrame (readyScene 0) = Some ''data:image/png;base64,END''
            \<and> ''data:image/png;base64,END'' \<noteq> []"
    by (simp add: frameOf_def ready_frames)
  have ok: "regenerateVideoFrame demoServices ''data:image/png;base64,START'' ''make her smile''
              (VideoScene.description (readyScene 0)) = Inr ''data:image/png;base64,REGEN''"
    by (simp add: regenerateVideoFrame_def demoServices_def imageOfParts_def imageParts_def)
  have refused: "regenerateVideoFrame svcRegenerationRefused ''data:image/png;base64,END'' []
              (VideoScene.description (readyScene 0))
            = Inl (JsError (''AI did not return an image for regeneration. Response: ''
                    @ [CHR 0x22] @ ''I cannot edit this image.'' @ [CHR 0x22]))"
    by (simp add: regenerateVideoFrame_def svcRegenerationRefused_def demoServices_def
        imageOfParts_def truthy_def or_else_def)
  note A = regenerate_changes_one_frame [of demoServices "scene_id (readyScene 0)" StartFrame
      "''make her smile''" readyState]
  note B = regenerate_changes_one_frame [of svcRegenerationRefused "scene_id (readyScene 0)" EndFrame
      "[]" readyState]
  from A k1 other have a1: "scenes (handleRegenerateFrame demoServices (scene_id (readyScene 0)) StartFrame
               ''make her smile'' readyState) ! 1 = scenes readyState ! 1"
    by blast
  from A k0 have a2: "(scenes (handleRegenerateFrame demoServices (scene_id (readyScene 0)) StartFrame
                ''make her smile'' readyState) ! 0)
        \<lparr>startFrame := startFrame (scenes readyState ! 0)\<rparr> = scenes readyState ! 0
      \<and> endFrame (scenes (handleRegenerateFrame demoServices (scene_id (readyScene 0)) StartFrame
                ''make her smile'' readyState) ! 0) = endFrame (scenes readyState ! 0)"
    by blast
  from A found sf ok have a3: "scenes (handleRegenerateFrame demoServices (scene_id (readyScene 0)) StartFrame
               ''make her smile'' readyState)
       = patchScene (scene_id (readyScene 0))
           (setFrame StartFrame ''data:image/png;base64,REGEN'') (scenes readyState)"
    by blast
  from B found ef refused have b: "scenes (handleRegenerateFrame svcRegenerationRefused (scene_id (readyScene 0)) EndFrame
               [] readyState) = scenes readyState"
    by blast
  from A a1 a2 a3 b show ?thesis by blast
qed

subsection \<open>C8: one rotating progress message before every poll\<close>

text \<open>
  Claim C8 says that a run whose job poll sequence is pending, pending, done with URL \<open>X\<close>
  ends done with the generated video URL \<open>X\<close> after exactly two rotating progress
  messages. The loop emits its message before each poll, the first one for the operation
  that the submission returned, so three polls are preceded by three messages; and the
  URL that is stored is the object URL of the video downloaded from \<open>X\<close>, not \<open>X\<close>. In
  the example the submission returns a pending operation and the polls answer pending,
  pending, done.
\<close>

theorem three_polls_three_rotating_messages:
  "pollReplies demoServices
     = [Inr pendingOperation, Inr pendingOperation,
        Inr (doneOperation ''https://video.example/X?alt=media'')]
   \<and> veoProgressLog demoServices (readyScene 0)
       = [''Starting video generation...'',
          ''Casting characters...'', ''Setting up the scene...'', ''Director is shouting 'Action!'...'',
          ''Fetching video...'']
   \<and> veoJobOutcome demoServices (readyScene 0) = Returned ''blob:video-X''"
  by (simp add: veoProgressLog_def veoJobOutcome_def generateVeoVideo_def demoServices_def
      pendingOperation_def doneOperation_def retrieveVideo_def progressMessages_def
      truthy_def or_else_def Let_def)

text \<open>
  Claim C8, amended to what the loop does. Let the submission return an operation that is
  not done, let the polls answer with operations that are not done (\<open>pendings\<close>) and then
  with one that is done, without error and with the link \<open>X\<close>, and let the download of
  \<open>X\<close> succeed. Then the caller observes the start message, one rotating message per poll
  (\<open>length pendings + 1\<close> of them, in the order of the message list, cyclically) and the
  fetch message; the handler returns, and the scene is done with the object URL of the
  downloaded video. Two rotating messages are observed when the job is done at the second
  poll.
\<close>

theorem rotating_message_before_every_poll:
  assumes present: "truthy (veoPromptOf scene)" "truthy (startFrame scene)"
    and submit: "submitReply svc (requestPayloadOf (or_else (veoPromptOf scene) [])
                   (Some (startFrameDataOf scene))) = Inr operation0"
      "\<not> opDone operation0"
    and polls: "pollReplies svc = map Inr pendings @ Inr operationD # rest"
      "\<forall>operation\<in>set pendings. \<not> opDone operation"
      "opDone operationD" "opError operationD = None" "videoUri operationD = Some X" "X \<noteq> []"
    and download: "downloadReply svc (X @ ''&key='' @ apiKey svc) = Inr response" "ok response"
  shows "veoProgressLog svc scene
           = ''Starting video generation...''
             # map (\<lambda>i. progressMessages ! (i mod length progressMessages)) [0..<Suc (length pendings)]
             @ [''Fetching video...'']
       \<and> snd (snd (handleCreateVeoVideo svc scene st)) = Returned ()
       \<and> (\<forall>s\<in>set (scenes (fst (handleCreateVeoVideo svc scene st))).
             scene_id s = scene_id scene \<longrightarrow>
               videoGenerationStatus s = Done \<and> generatedVideoUrl s = Some (objectUrl response))"
proof -
  have loop: "pollLoop cb (pollReplies svc) 0 operation0 s
      = (fold cb (map (\<lambda>i. progressMessages ! (i mod length progressMessages))
                    [0..<Suc (0 + length pendings)]) s, Returned operationD)" for cb :: "string \<Rightarrow> 'x \<Rightarrow> 'x" and s
    unfolding polls(1) using polls(2,3) submit(2) by (rule pollLoop_pending_then_done)
  have fetch: "retrieveVideo svc cb operationD s = (cb ''Fetching video...'' s, Returned (objectUrl response))"
    for cb :: "string \<Rightarrow> 'x \<Rightarrow> 'x" and s
    using polls(4,5,6) download
    by (simp add: retrieveVideo_def Let_def truthy_def or_else_def)
  have log: "veoProgressLog svc scene
           = ''Starting video generation...''
             # map (\<lambda>i. progressMessages ! (i mod length progressMessages)) [0..<Suc (length pendings)]
             @ [''Fetching video...'']"
    using submit(1) loop [of "\<lambda>progress log. log @ [progress]"]
      fetch [of "\<lambda>progress log. log @ [progress]"]
    by (simp add: veoProgressLog_def generateVeoVideo_def Let_def fold_log del: upt_Suc)
  have "veoJobOutcome svc scene = Returned (objectUrl response)"
    using submit(1) loop [of "\<lambda>progress u. u" "()"] fetch [of "\<lambda>progress u. u" "()"]
    by (simp add: veoJobOutcome_def generateVeoVideo_def Let_def del: upt_Suc)
  from handleCreateVeoVideo_returned [OF present this, of st] log show ?thesis by simp
qed

theorem rotating_message_before_every_poll_witness:
  "veoProgressLog svcDoneAtSecondPoll (readyScene 0)
     = [''Starting video generation...'', ''Casting characters...'', ''Setting up the scene...'',
        ''Fetching video...'']
   \<and> snd (snd (handleCreateVeoVideo svcDoneAtSecondPoll (readyScene 0) readyState)) = Returned ()
   \<and> videoGenerationStatus
        (scenes (fst (handleCreateVeoVideo svcDoneAtSecondPoll (readyScene 0) readyState)) ! 0) = Done
   \<and> generatedVideoUrl
        (scenes (fst (handleCreateVeoVideo svcDoneAtSecondPoll (readyScene 0) readyState)) ! 0)
       = Some ''blob:video-X''"
proof -
  have submit: "submitReply svcDoneAtSecondPoll (requestPayloadOf (or_else (veoPromptOf (readyScene 0)) [])
                   (Some (startFrameDataOf (readyScene 0)))) = Inr pendingOperation"
    "\<not> opDone pendingOperation"
    by (simp_all add: svcDoneAtSecondPoll_def demoServices_def pendingOperation_def)
  have polls: "pollReplies svcDoneAtSecondPoll
        = map Inr [pendingOperation] @ Inr (doneOperation ''https://video.example/X?alt=media'') # []"
    "\<forall>operation\<in>set [pendingOperation]. \<not> opDone operation"
    "opDone (doneOperation ''https://video.example/X?alt=media'')"
    "opError (doneOperation ''https://video.example/X?alt=media'') = None"
    "videoUri (doneOperation ''https://video.example/X?alt=media'') = Some ''https://video.example/X?alt=media''"
    "''https://video.example/X?alt=media'' \<noteq> []"
    by (simp_all add: svcDoneAtSecondPoll_def demoServices_def pendingOperation_def doneOperation_def)
  have download: "downloadReply svcDoneAtSecondPoll
        (''https://video.example/X?alt=media'' @ ''&key='' @ apiKey svcDoneAtSecondPoll)
          = Inr \<lparr>ok = True, statusText = ''OK'', objectUrl = ''blob:video-X''\<rparr>"
    "ok \<lparr>ok = True, statusText = ''OK'', objectUrl = ''blob:video-X''\<rparr>"
    by (simp_all add: svcDoneAtSecondPoll_def demoServices_def)
  note T = rotating_message_before_every_poll [OF ready_present submit polls download, of readyState]
  note T3 = T [THEN conjunct2, THEN conjunct2, rule_format,
      OF run_first_scene [of svcDoneAtSecondPoll, THEN conjunct1]
         run_first_scene [of svcDoneAtSecondPoll, THEN conjunct2]]
  from T T3 show ?thesis by (simp add: progressMessages_def)
qed

subsection \<open>C3: a video run that returns leaves the scene done or in error\<close>

text \<open>
  Claim C3. For a scene with a veo prompt and a start frame, the handler never throws;
  when it returns, every scene with the run's identifier has status done or error, never
  pending or idle. Done goes with the generated video URL that the job returned; error
  goes with the message of what the job threw in the progress field (\<open>Unknown error\<close> for
  a thrown value that is no \<^verbatim>\<open>Error\<close>). The handler does return whenever some recorded
  poll answer is a rejection or a finished operation. Each failure of the job surfaces as
  the error state, with its own message, and the handler returns normally:
  \<^item> the submission is rejected;
  \<^item> a poll is rejected, after any number of polls that found the job not done;
  \<^item> the finished operation carries an error;
  \<^item> the finished operation carries no download link;
  \<^item> the download is rejected, or answers with a status that is not ok.
  Only a finished operation without error, with a link and an ok download leaves the
  scene done, with the object URL of the download.
\<close>

theorem run_returns_done_or_error:
  assumes present: "truthy (veoPromptOf scene)" "truthy (startFrame scene)"
    and run: "handleCreateVeoVideo svc scene st = (st', requests, r)"
  shows "(\<forall>e. r \<noteq> Threw e)
       \<and> (((\<exists>e. Inl e \<in> set (pollReplies svc))
             \<or> (\<exists>operation. Inr operation \<in> set (pollReplies svc) \<and> opDone operation))
            \<longrightarrow> r = Returned ())
       \<and> (r = Returned () \<longrightarrow>
            (\<forall>s\<in>set (scenes st'). scene_id s = scene_id scene \<longrightarrow>
               (videoGenerationStatus s = Done \<or> videoGenerationStatus s = Error)
               \<and> (videoGenerationStatus s = Done \<longrightarrow>
                    (\<exists>videoUrl. veoJobOutcome svc scene = Returned videoUrl
                                \<and> generatedVideoUrl s = Some videoUrl))
               \<and> (videoGenerationStatus s = Error \<longrightarrow>
                    (\<exists>e. veoJobOutcome svc scene = Threw e
                         \<and> videoGenerationProgress s = Some (message_or e ''Unknown error'')))))
       \<and> (submitReply svc (requestPayloadOf (or_else (veoPromptOf scene) [])
              (Some (startFrameDataOf scene))) = Inl e
            \<longrightarrow> leavesError e scene (st', requests, r))
       \<and> (submitReply svc (requestPayloadOf (or_else (veoPromptOf scene) [])
              (Some (startFrameDataOf scene))) = Inr operation0
            \<and> \<not> opDone operation0 \<and> (\<forall>operation\<in>set pendings. \<not> opDone operation)
            \<and> pollReplies svc = map Inr pendings @ Inl e # rest
            \<longrightarrow> leavesError e scene (st', requests, r))
       \<and> ((submitReply svc (requestPayloadOf (or_else (veoPromptOf scene) [])
               (Some (startFrameDataOf scene))) = Inr operationD
             \<or> (submitReply svc (requestPayloadOf (or_else (veoPromptOf scene) [])
                   (Some (startFrameDataOf scene))) = Inr operation0
                 \<and> \<not> opDone operation0 \<and> (\<forall>operation\<in>set pendings. \<not> opDone operation)
                 \<and> pollReplies svc = map Inr pendings @ Inr operationD # rest))
            \<and> opDone operationD
            \<longrightarrow> (opError operationD = Some m
                   \<longrightarrow> leavesError (JsError (''Video generation failed: '' @ m)) scene (st', requests, r))
               \<and> (opError operationD = None \<and> \<not> truthy (videoUri operationD)
                   \<longrightarrow> leavesError
                         (JsError ''Video generation completed, but no download link was provided.'')
                         scene (st', requests, r))
               \<and> (opError operationD = None \<and> truthy (videoUri operationD)
                   \<longrightarrow> (downloadReply svc (or_else (videoUri operationD) [] @ ''&key='' @ apiKey svc)
                           = Inl e
                          \<longrightarrow> leavesError e scene (st', requests, r))
                       \<and> (downloadReply svc (or_else (videoUri operationD) [] @ ''&key='' @ apiKey svc)
                             = Inr response \<and> \<not> ok response
                            \<longrightarrow> leavesError
                                  (JsError (''Failed to download video: '' @ statusText response))
                                  scene (st', requests, r))
                       \<and> (downloadReply svc (or_else (videoUri operationD) [] @ ''&key='' @ apiKey svc)
                             = Inr response \<and> ok response
                            \<longrightarrow> leavesDone (objectUrl response) scene (st', requests, r))))"
proof -
  from handleCreateVeoVideo_result [OF present, of svc st] obtain st2 where
    res: "handleCreateVeoVideo svc scene st =
           (case veoJobOutcome svc scene of
              Unfinished \<Rightarrow> (st2, [requestPayloadOf (or_else (veoPromptOf scene) [])
                                     (Some (startFrameDataOf scene))], Unfinished)
            | Returned videoUrl \<Rightarrow>
                (st2\<lparr>scenes := patchScene (scene_id scene) (setDone videoUrl) (scenes st2)\<rparr>,
                 [requestPayloadOf (or_else (veoPromptOf scene) []) (Some (startFrameDataOf scene))],
                 Returned ())
            | Threw e \<Rightarrow>
                (st2\<lparr>scenes := patchScene (scene_id scene) (setError e) (scenes st2)\<rparr>,
                 [requestPayloadOf (or_else (veoPromptOf scene) []) (Some (startFrameDataOf scene))],
                 Returned ()))"
    by blast
  have general: "(\<forall>e. r \<noteq> Threw e)
       \<and> (((\<exists>e. Inl e \<in> set (pollReplies svc))
             \<or> (\<exists>operation. Inr operation \<in> set (pollReplies svc) \<and> opDone operation))
            \<longrightarrow> r = Returned ())
       \<and> (r = Returned () \<longrightarrow>
            (\<forall>s\<in>set (scenes st'). scene_id s = scene_id scene \<longrightarrow>
               (videoGenerationStatus s = Done \<or> videoGenerationStatus s = Error)
               \<and> (videoGenerationStatus s = Done \<longrightarrow>
                    (\<exists>videoUrl. veoJobOutcome svc scene = Returned videoUrl
                                \<and> generatedVideoUrl s = Some videoUrl))
               \<and> (videoGenerationStatus s = Error \<longrightarrow>
                    (\<exists>e. veoJobOutcome svc scene = Threw e
                         \<and> videoGenerationProgress s = Some (message_or e ''Unknown error'')))))"
  proof (cases "veoJobOutcome svc scene")
    case Unfinished
    with res run have r: "r = Unfinished" by simp
    have "\<not> ((\<exists>e. Inl e \<in> set (pollReplies svc))
             \<or> (\<exists>operation. Inr operation \<in> set (pollReplies svc) \<and> opDone operation))"
    proof
      assume "(\<exists>e. Inl e \<in> set (pollReplies svc))
             \<or> (\<exists>operation. Inr operation \<in> set (pollReplies svc) \<and> opDone operation)"
      from generateVeoVideo_settles [OF this, of "or_else (veoPromptOf scene) []"
          "\<lambda>progress u. u" "Some (startFrameDataOf scene)" "VideoScene.duration scene" "()"]
      have "veoJobOutcome svc scene \<noteq> Unfinished"
        unfolding veoJobOutcome_def .
      with Unfinished show False by simp
    qed
    with r show ?thesis by simp
  next
    case (Threw e)
    with res run have r: "r = Returned ()"
      and st': "scenes st' = patchScene (scene_id scene) (setError e) (scenes st2)"
      by auto
    have "videoGenerationStatus s = Error
          \<and> videoGenerationProgress s = Some (message_or e ''Unknown error'')"
      if "s \<in> set (scenes st')" "scene_id s = scene_id scene" for s
    proof -
      from that st' have "\<exists>x\<in>set (scenes st2). s = setError e x"
        by (intro patched_scene) simp_all
      then show ?thesis by (auto simp: setError_def)
    qed
    with r Threw show ?thesis by simp
  next
    case (Returned videoUrl)
    with res run have r: "r = Returned ()"
      and st': "scenes st' = patchScene (scene_id scene) (setDone videoUrl) (scenes st2)"
      by auto
    have "videoGenerationStatus s = Done \<and> generatedVideoUrl s = Some videoUrl"
      if "s \<in> set (scenes st')" "scene_id s = scene_id scene" for s
    proof -
      from that st' have "\<exists>x\<in>set (scenes st2). s = setDone videoUrl x"
        by (intro patched_scene) simp_all
      then show ?thesis by (auto simp: setDone_def)
    qed
    with r Returned show ?thesis by simp
  qed
  have threw: "leavesError x scene (st', requests, r)" if "veoJobOutcome svc scene = Threw x" for x
    using handleCreateVeoVideo_threw [OF present that, of st] run by simp
  have returned: "leavesDone u scene (st', requests, r)" if "veoJobOutcome svc scene = Returned u" for u
    using handleCreateVeoVideo_done [OF present that, of st] run by simp
  have submit: "submitReply svc (requestPayloadOf (or_else (veoPromptOf scene) [])
              (Some (startFrameDataOf scene))) = Inl e
            \<longrightarrow> leavesError e scene (st', requests, r)"
  proof
    assume "submitReply svc (requestPayloadOf (or_else (veoPromptOf scene) [])
              (Some (startFrameDataOf scene))) = Inl e"
    then show "leavesError e scene (st', requests, r)"
      by (intro threw outcome_submit_rejected)
  qed
  have poll: "submitReply svc (requestPayloadOf (or_else (veoPromptOf scene) [])
              (Some (startFrameDataOf scene))) = Inr operation0
            \<and> \<not> opDone operation0 \<and> (\<forall>operation\<in>set pendings. \<not> opDone operation)
            \<and> pollReplies svc = map Inr pendings @ Inl e # rest
            \<longrightarrow> leavesError e scene (st', requests, r)"
  proof
    assume "submitReply svc (requestPayloadOf (or_else (veoPromptOf scene) [])
              (Some (startFrameDataOf scene))) = Inr operation0
            \<and> \<not> opDone operation0 \<and> (\<forall>operation\<in>set pendings. \<not> opDone operation)
            \<and> pollReplies svc = map Inr pendings @ Inl e # rest"
    then show "leavesError e scene (st', requests, r)"
      by (intro threw outcome_poll_rejected [of svc scene operation0 pendings e rest]) simp_all
  qed
  have ends: "(submitReply svc (requestPayloadOf (or_else (veoPromptOf scene) [])
               (Some (startFrameDataOf scene))) = Inr operationD
             \<or> (submitReply svc (requestPayloadOf (or_else (veoPromptOf scene) [])
                   (Some (startFrameDataOf scene))) = Inr operation0
                 \<and> \<not> opDone operation0 \<and> (\<forall>operation\<in>set pendings. \<not> opDone operation)
                 \<and> pollReplies svc = map Inr pendings @ Inr operationD # rest))
            \<and> opDone operationD
            \<longrightarrow> (opError operationD = Some m
                   \<longrightarrow> leavesError (JsError (''Video generation failed: '' @ m)) scene (st', requests, r))
               \<and> (opError operationD = None \<and> \<not> truthy (videoUri operationD)
                   \<longrightarrow> leavesError
                         (JsError ''Video generation completed, but no download link was provided.'')
                         scene (st', requests, r))
               \<and> (opError operationD = None \<and> truthy (videoUri operationD)
                   \<longrightarrow> (downloadReply svc (or_else (videoUri operationD) [] @ ''&key='' @ apiKey svc)
                           = Inl e
                          \<longrightarrow> leavesError e scene (st', requests, r))
                       \<and> (downloadReply svc (or_else (videoUri operationD) [] @ ''&key='' @ apiKey svc)
                             = Inr response \<and> \<not> ok response
                            \<longrightarrow> leavesError
                                  (JsError (''Failed to download video: '' @ statusText response))
                                  scene (st', requests, r))
                       \<and> (downloadReply svc (or_else (videoUri operationD) [] @ ''&key='' @ apiKey svc)
                             = Inr response \<and> ok response
                            \<longrightarrow> leavesDone (objectUrl response) scene (st', requests, r)))"
  proof
    assume e: "(submitReply svc (requestPayloadOf (or_else (veoPromptOf scene) [])
               (Some (startFrameDataOf scene))) = Inr operationD
             \<or> (submitReply svc (requestPayloadOf (or_else (veoPromptOf scene) [])
                   (Some (startFrameDataOf scene))) = Inr operation0
                 \<and> \<not> opDone operation0 \<and> (\<forall>operation\<in>set pendings. \<not> opDone operation)
                 \<and> pollReplies svc = map Inr pendings @ Inr operationD # rest))
            \<and> opDone operationD"
    from e have out: "veoJobOutcome svc scene = snd (retrieveVideo svc (\<lambda>m u. u) operationD ())"
      by (intro outcome_job_ends [of svc scene operationD operation0 pendings rest]) simp_all
    show "(opError operationD = Some m
                   \<longrightarrow> leavesError (JsError (''Video generation failed: '' @ m)) scene (st', requests, r))
               \<and> (opError operationD = None \<and> \<not> truthy (videoUri operationD)
                   \<longrightarrow> leavesError
                         (JsError ''Video generation completed, but no download link was provided.'')
                         scene (st', requests, r))
               \<and> (opError operationD = None \<and> truthy (videoUri operationD)
                   \<longrightarrow> (downloadReply svc (or_else (videoUri operationD) [] @ ''&key='' @ apiKey svc)
                           = Inl e
                          \<longrightarrow> leavesError e scene (st', requests, r))
                       \<and> (downloadReply svc (or_else (videoUri operationD) [] @ ''&key='' @ apiKey svc)
                             = Inr response \<and> \<not> ok response
                            \<longrightarrow> leavesError
                                  (JsError (''Failed to download video: '' @ statusText response))
                                  scene (st', requests, r))
                       \<and> (downloadReply svc (or_else (videoUri operationD) [] @ ''&key='' @ apiKey svc)
                             = Inr response \<and> ok response
                            \<longrightarrow> leavesDone (objectUrl response) scene (st', requests, r)))"
    proof (intro conjI impI)
      assume "opError operationD = Some m"
      with out show "leavesError (JsError (''Video generation failed: '' @ m)) scene (st', requests, r)"
        by (intro threw) (simp add: retrieveVideo_def)
    next
      assume "opError operationD = None \<and> \<not> truthy (videoUri operationD)"
      with out show "leavesError
            (JsError ''Video generation completed, but no download link was provided.'')
            scene (st', requests, r)"
        by (intro threw) (simp add: retrieveVideo_def Let_def)
    next
      assume "opError operationD = None \<and> truthy (videoUri operationD)"
        and "downloadReply svc (or_else (videoUri operationD) [] @ ''&key='' @ apiKey svc) = Inl e"
      with out show "leavesError e scene (st', requests, r)"
        by (intro threw) (simp add: retrieveVideo_def Let_def)
    next
      assume "opError operationD = None \<and> truthy (videoUri operationD)"
        and "downloadReply svc (or_else (videoUri operationD) [] @ ''&key='' @ apiKey svc)
               = Inr response \<and> \<not> ok response"
      with out show "leavesError (JsError (''Failed to download video: '' @ statusText response))
            scene (st', requests, r)"
        by (intro threw) (simp add: retrieveVideo_def Let_def)
    next
      assume "opError operationD = None \<and> truthy (videoUri operationD)"
        and "downloadReply svc (or_else (videoUri operationD) [] @ ''&key='' @ apiKey svc)
               = Inr response \<and> ok response"
      with out show "leavesDone (objectUrl response) scene (st', requests, r)"
        by (intro returned) (simp add: retrieveVideo_def Let_def)
    qed
  qed
  from general submit poll ends show ?thesis
    by (elim conjE, intro conjI) assumption+
qed

theorem run_returns_done_or_error_witness:
  "snd (snd (handleCreateVeoVideo demoServices (readyScene 0) readyState)) = Returned ()
   \<and> videoGenerationStatus (scenes (fst (handleCreateVeoVideo demoServices (readyScene 0) readyState)) ! 0) = Done
   \<and> generatedVideoUrl (scenes (fst (handleCreateVeoVideo demoServices (readyScene 0) readyState)) ! 0)
       = Some ''blob:video-X''
   \<and> snd (snd (handleCreateVeoVideo svcJobFails (readyScene 0) readyState)) = Returned ()
   \<and> videoGenerationStatus (scenes (fst (handleCreateVeoVideo svcJobFails (readyScene 0) readyState)) ! 0) = Error
   \<and> videoGenerationProgress (scenes (fst (handleCreateVeoVideo svcJobFails (readyScene 0) readyState)) ! 0)
       = Some ''Video generation failed: quota exceeded''
   \<and> snd (snd (handleCreateVeoVideo svcSubmitRejected (readyScene 0) readyState)) = Returned ()
   \<and> videoGenerationStatus (scenes (fst (handleCreateVeoVideo svcSubmitRejected (readyScene 0) readyState)) ! 0) = Error
   \<and> videoGenerationProgress (scenes (fst (handleCreateVeoVideo svcSubmitRejected (readyScene 0) readyState)) ! 0)
       = Some ''API key not valid''
   \<and> snd (snd (handleCreateVeoVideo svcPollRejected (readyScene 0) readyState)) = Returned ()
   \<and> videoGenerationStatus (scenes (fst (handleCreateVeoVideo svcPollRejected (readyScene 0) readyState)) ! 0) = Error
   \<and> videoGenerationProgress (scenes (fst (handleCreateVeoVideo svcPollRejected (readyScene 0) readyState)) ! 0)
       = Some ''Unknown error''
   \<and> snd (snd (handleCreateVeoVideo svcDownloadRejected (readyScene 0) readyState)) = Returned ()
   \<and> videoGenerationStatus (scenes (fst (handleCreateVeoVideo svcDownloadRejected (readyScene 0) readyState)) ! 0) = Error
   \<and> videoGenerationProgress (scenes (fst (handleCreateVeoVideo svcDownloadRejected (readyScene 0) readyState)) ! 0)
       = Some ''Failed to fetch''
   \<and> snd (snd (handleCreateVeoVideo svcDownloadRefused (readyScene 0) readyState)) = Returned ()
   \<and> videoGenerationStatus (scenes (fst (handleCreateVeoVideo svcDownloadRefused (readyScene 0) readyState)) ! 0) = Error
   \<and> videoGenerationProgress (scenes (fst (handleCreateVeoVideo svcDownloadRefused (readyScene 0) readyState)) ! 0)
       = Some ''Failed to download video: Forbidden''"
proof -
  let ?req = "requestPayloadOf (or_else (veoPromptOf (readyScene 0)) []) (Some (startFrameDataOf (readyScene 0)))"
  let ?X = "''https://video.example/X?alt=media''"
  let ?failed = "\<lparr>opDone = True, opError = Some ''quota exceeded'', videoUri = None\<rparr>"
  note T = run_returns_done_or_error [OF ready_present run_handler_triple]
  note submit = T [THEN conjunct2, THEN conjunct2, THEN conjunct2, THEN conjunct1, THEN mp]
  note poll = T [THEN conjunct2, THEN conjunct2, THEN conjunct2, THEN conjunct2, THEN conjunct1, THEN mp]
  note ends = T [THEN conjunct2, THEN conjunct2, THEN conjunct2, THEN conjunct2, THEN conjunct2, THEN mp]
  have ends_demo: "(submitReply svc ?req = Inr (doneOperation ?X)
        \<or> (submitReply svc ?req = Inr pendingOperation
            \<and> \<not> opDone pendingOperation
            \<and> (\<forall>operation\<in>set [pendingOperation, pendingOperation]. \<not> opDone operation)
            \<and> pollReplies svc = map Inr [pendingOperation, pendingOperation] @ Inr (doneOperation ?X) # []))
       \<and> opDone (doneOperation ?X)"
    if "submitReply svc ?req = submitReply demoServices ?req" "pollReplies svc = pollReplies demoServices"
    for svc
    using that by (simp add: demoServices_def pendingOperation_def doneOperation_def)
  have link: "opError (doneOperation ?X) = None \<and> truthy (videoUri (doneOperation ?X))"
    by (simp add: doneOperation_def truthy_def)
  \<comment> \<open>the job is done and the download succeeds\<close>
  have "downloadReply demoServices (or_else (videoUri (doneOperation ?X)) [] @ ''&key='' @ apiKey demoServices)
          = Inr \<lparr>ok = True, statusText = ''OK'', objectUrl = ''blob:video-X''\<rparr>
        \<and> ok \<lparr>ok = True, statusText = ''OK'', objectUrl = ''blob:video-X''\<rparr>"
    by (simp add: demoServices_def)
  from ends [OF ends_demo [of demoServices, OF refl refl],
      THEN conjunct2, THEN conjunct2, THEN mp, OF link,
      THEN conjunct2, THEN conjunct2, THEN mp, OF this]
  have a: "leavesDone (objectUrl \<lparr>ok = True, statusText = ''OK'', objectUrl = ''blob:video-X''\<rparr>)
      (readyScene 0)
      (fst (handleCreateVeoVideo demoServices (readyScene 0) readyState),
       fst (snd (handleCreateVeoVideo demoServices (readyScene 0) readyState)),
       snd (snd (handleCreateVeoVideo demoServices (readyScene 0) readyState)))"
    by simp
  \<comment> \<open>the finished operation carries an error\<close>
  have "(submitReply svcJobFails ?req = Inr ?failed
        \<or> (submitReply svcJobFails ?req = Inr pendingOperation
            \<and> \<not> opDone pendingOperation
            \<and> (\<forall>operation\<in>set []. \<not> opDone operation)
            \<and> pollReplies svcJobFails = map Inr [] @ Inr ?failed # []))
       \<and> opDone ?failed"
    by (simp add: svcJobFails_def demoServices_def pendingOperation_def)
  from ends [OF this, THEN conjunct1, THEN mp, of "''quota exceeded''"]
  have b: "leavesError (JsError (''Video generation failed: '' @ ''quota exceeded'')) (readyScene 0)
      (fst (handleCreateVeoVideo svcJobFails (readyScene 0) readyState),
       fst (snd (handleCreateVeoVideo svcJobFails (readyScene 0) readyState)),
       snd (snd (handleCreateVeoVideo svcJobFails (readyScene 0) readyState)))"
    by simp
  \<comment> \<open>the submission is rejected\<close>
  have "submitReply svcSubmitRejected ?req = Inl (JsError ''API key not valid'')"
    by (simp add: svcSubmitRejected_def demoServices_def)
  from submit [OF this]
  have c: "leavesError (JsError ''API key not valid'') (readyScene 0)
      (fst (handleCreateVeoVideo svcSubmitRejected (readyScene 0) readyState),
       fst (snd (handleCreateVeoVideo svcSubmitRejected (readyScene 0) readyState)),
       snd (snd (handleCreateVeoVideo svcSubmitRejected (readyScene 0) readyState)))" .
  \<comment> \<open>the second poll is rejected, with a value that is no \<^verbatim>\<open>Error\<close>\<close>
  have "submitReply svcPollRejected ?req = Inr pendingOperation
        \<and> \<not> opDone pendingOperation
        \<and> (\<forall>operation\<in>set [pendingOperation]. \<not> opDone operation)
        \<and> pollReplies svcPollRejected = map Inr [pendingOperation] @ Inl NonError # []"
    by (simp add: svcPollRejected_def demoServices_def pendingOperation_def)
  from poll [OF this]
  have d: "leavesError NonError (readyScene 0)
      (fst (handleCreateVeoVideo svcPollRejected (readyScene 0) readyState),
       fst (snd (handleCreateVeoVideo svcPollRejected (readyScene 0) readyState)),
       snd (snd (handleCreateVeoVideo svcPollRejected (readyScene 0) readyState)))" .
  \<comment> \<open>the download is rejected\<close>
  have rejected_ends: "(submitReply svcDownloadRejected ?req = Inr (doneOperation ?X)
        \<or> (submitReply svcDownloadRejected ?req = Inr pendingOperation
            \<and> \<not> opDone pendingOperation
            \<and> (\<forall>operation\<in>set [pendingOperation, pendingOperation]. \<not> opDone operation)
            \<and> pollReplies svcDownloadRejected
                 = map Inr [pendingOperation, pendingOperation] @ Inr (doneOperation ?X) # []))
       \<and> opDone (doneOperation ?X)"
    by (rule ends_demo) (simp_all add: svcDownloadRejected_def)
  have "downloadReply svcDownloadRejected
          (or_else (videoUri (doneOperation ?X)) [] @ ''&key='' @ apiKey svcDownloadRejected)
          = Inl (JsError ''Failed to fetch'')"
    by (simp add: svcDownloadRejected_def)
  from ends [OF rejected_ends, THEN conjunct2, THEN conjunct2, THEN mp, OF link,
      THEN conjunct1, THEN mp, OF this]
  have e: "leavesError (JsError ''Failed to fetch'') (readyScene 0)
      (fst (handleCreateVeoVideo svcDownloadRejected (readyScene 0) readyState),
       fst (snd (handleCreateVeoVideo svcDownloadRejected (readyScene 0) readyState)),
       snd (snd (handleCreateVeoVideo svcDownloadRejected (readyScene 0) readyState)))" .
  \<comment> \<open>the download answers with a status that is not ok\<close>
  have refused_ends: "(submitReply svcDownloadRefused ?req = Inr (doneOperation ?X)
        \<or> (submitReply svcDownloadRefused ?req = Inr pendingOperation
            \<and> \<not> opDone pendingOperation
            \<and> (\<forall>operation\<in>set [pendingOperation, pendingOperation]. \<not> opDone operation)
            \<and> pollReplies svcDownloadRefused
                 = map Inr [pendingOperation, pendingOperation] @ Inr (doneOperation ?X) # []))
       \<and> opDone (doneOperation ?X)"
    by (rule ends_demo) (simp_all add: svcDownloadRefused_def)
  have "downloadReply svcDownloadRefused
          (or_else (videoUri (doneOperation ?X)) [] @ ''&key='' @ apiKey svcDownloadRefused)
          = Inr \<lparr>ok = False, statusText = ''Forbidden'', objectUrl = []\<rparr>
        \<and> \<not> ok \<lparr>ok = False, statusText = ''Forbidden'', objectUrl = []\<rparr>"
    by (simp add: svcDownloadRefused_def)
  from ends [OF refused_ends, THEN conjunct2, THEN conjunct2, THEN mp, OF link,
      THEN conjunct2, THEN conjunct1, THEN mp, OF this]
  have f: "leavesError (JsError (''Failed to download video: ''
                @ statusText \<lparr>ok = False, statusText = ''Forbidden'', objectUrl = []\<rparr>)) (readyScene 0)
      (fst (handleCreateVeoVideo svcDownloadRefused (readyScene 0) readyState),
       fst (snd (handleCreateVeoVideo svcDownloadRefused (readyScene 0) readyState)),
       snd (snd (handleCreateVeoVideo svcDownloadRefused (readyScene 0) readyState)))" .
  from leavesDone_first [OF a] leavesError_first [OF b] leavesError_first [OF c]
    leavesError_first [OF d] leavesError_first [OF e] leavesError_first [OF f]
  show ?thesis by (simp add: message_or_def)
qed

subsection \<open>C4: a run is accepted for an idle or a failed scene; the guard is in the view\<close>




end
